theory Spec2Isabelle
  imports Main "HOL-Library.Sublist"
begin

section \<open>Python values used by both scrapers\<close>

text \<open>
  A Python \<open>str\<close> is a sequence of Unicode code points, so a string is a list of
  code points (\<open>len\<close> is \<open>length\<close>, \<open>s[:n]\<close> is \<open>take n s\<close>).
  ASCII literals of the source are written through \<open>ustr\<close>; the Persian literals are
  written out as the code points found in the source files.
\<close>

type_synonym ustring = "nat list"

definition ustr :: "string \<Rightarrow> ustring" where
  "ustr s = map of_char s"

text \<open>
  The exceptions that the modelled functions can raise. \<open>Unmodelled\<close> is not an
  exception of Python: it marks the inputs on which a function is not modelled.
\<close>

datatype py_error = IndexError | ValueError | OverflowError | Exception string | Unmodelled

text \<open>
  The decimal digits of Unicode 14, which is the class \<open>\d\<close> of the regular expressions
  and the digits that \<open>int\<close> reads in Python 3.11: ranges of ten digits each, in the
  order of their values (the last but four of the ranges holds five such runs).
\<close>

definition decimal_digit_ranges :: "(nat \<times> nat) list" where
  "decimal_digit_ranges =
     [(0x30, 0x39), (0x660, 0x669), (0x6F0, 0x6F9), (0x7C0, 0x7C9), (0x966, 0x96F),
      (0x9E6, 0x9EF), (0xA66, 0xA6F), (0xAE6, 0xAEF), (0xB66, 0xB6F), (0xBE6, 0xBEF),
      (0xC66, 0xC6F), (0xCE6, 0xCEF), (0xD66, 0xD6F), (0xDE6, 0xDEF), (0xE50, 0xE59),
      (0xED0, 0xED9), (0xF20, 0xF29), (0x1040, 0x1049), (0x1090, 0x1099), (0x17E0, 0x17E9),
      (0x1810, 0x1819), (0x1946, 0x194F), (0x19D0, 0x19D9), (0x1A80, 0x1A89), (0x1A90, 0x1A99),
      (0x1B50, 0x1B59), (0x1BB0, 0x1BB9), (0x1C40, 0x1C49), (0x1C50, 0x1C59), (0xA620, 0xA629),
      (0xA8D0, 0xA8D9), (0xA900, 0xA909), (0xA9D0, 0xA9D9), (0xA9F0, 0xA9F9), (0xAA50, 0xAA59),
      (0xABF0, 0xABF9), (0xFF10, 0xFF19), (0x104A0, 0x104A9), (0x10D30, 0x10D39),
      (0x11066, 0x1106F), (0x110F0, 0x110F9), (0x11136, 0x1113F), (0x111D0, 0x111D9),
      (0x112F0, 0x112F9), (0x11450, 0x11459), (0x114D0, 0x114D9), (0x11650, 0x11659),
      (0x116C0, 0x116C9), (0x11730, 0x11739), (0x118E0, 0x118E9), (0x11950, 0x11959),
      (0x11C50, 0x11C59), (0x11D50, 0x11D59), (0x11DA0, 0x11DA9), (0x16A60, 0x16A69),
      (0x16AC0, 0x16AC9), (0x16B50, 0x16B59), (0x1D7CE, 0x1D7FF), (0x1E140, 0x1E149),
      (0x1E2F0, 0x1E2F9), (0x1E950, 0x1E959), (0x1FBF0, 0x1FBF9)]"

definition decimal_digit :: "nat \<Rightarrow> bool" where
  "decimal_digit c = list_ex (\<lambda>(lo, hi). lo \<le> c \<and> c \<le> hi) decimal_digit_ranges"

definition decimal_value :: "nat \<Rightarrow> int" where
  "decimal_value c =
     (case find (\<lambda>(lo, hi). lo \<le> c \<and> c \<le> hi) decimal_digit_ranges of
        Some (lo, hi) \<Rightarrow> int ((c - lo) mod 10)
      | None \<Rightarrow> 0)"

section \<open>ninisite\_scraper.py: direction marks around author names\<close>

text \<open>
  \<open>author[0]\<close>: indexing an empty string raises \<open>IndexError\<close>.
\<close>

definition first_char :: "ustring \<Rightarrow> py_error + nat" where
  "first_char s = (case s of [] \<Rightarrow> Inl IndexError | c # _ \<Rightarrow> Inr c)"

text \<open>
  The test on the first character: comparing one-character strings compares their
  code points.
\<close>

definition is_persian :: "nat \<Rightarrow> bool" where
  "is_persian first_ch \<longleftrightarrow>
     (0x0600 \<le> first_ch \<and> first_ch \<le> 0x06FF) \<or>
     (0x0750 \<le> first_ch \<and> first_ch \<le> 0x077F) \<or>
     (0xFB50 \<le> first_ch \<and> first_ch \<le> 0xFDFF) \<or>
     (0xFE70 \<le> first_ch \<and> first_ch \<le> 0xFEFF)"

text \<open>
  \<open>NinisiteScraper.format_author_name\<close>. \<open>not author\<close> holds of the empty string,
  which is returned before any character is read.
\<close>

definition format_author_name :: "ustring \<Rightarrow> py_error + ustring" where
  "format_author_name author =
     (if author = [] then Inr author
      else case first_char author of
             Inl e \<Rightarrow> Inl e
           | Inr first_ch \<Rightarrow>
               if is_persian first_ch then Inr ([0x2067] @ author @ [0x2069])
               else Inr author)"

section \<open>ninisite\_scraper.py: dates\<close>

text \<open>The fields of a \<open>datetime\<close> that the conversion reads.\<close>

record datetime =
  year :: int
  month :: int
  day :: int
  hour :: int
  minute :: int
  second :: int

text \<open>Decimal digits of a natural number, most significant first.\<close>

function decimal :: "nat \<Rightarrow> ustring" where
  "decimal n = (if n < 10 then [48 + n] else decimal (n div 10) @ [48 + n mod 10])"
  by pat_completeness auto
termination
  by (relation "measure (\<lambda>n. n)") auto

text \<open>
  The format specification \<open>0wd\<close> of an f-string: the digits are padded with zeros on
  the left up to the width \<open>w\<close>; a minus sign counts in the width and comes first; a
  number that is wider than \<open>w\<close> is written in full.
\<close>

definition format_0d :: "nat \<Rightarrow> int \<Rightarrow> ustring" where
  "format_0d w n =
     (let ds = decimal (nat \<bar>n\<bar>) in
      if n < 0 then 45 # replicate (w - 1 - length ds) 48 @ ds
      else replicate (w - length ds) 48 @ ds)"

text \<open>
  \<open>NinisiteScraper.parse_date_to_jalali\<close>. The two library calls of the \<open>try\<close> block
  are parameters: \<open>strptime\<close> is \<open>datetime.strptime(_, "%m/%d/%Y %I:%M:%S %p")\<close> and
  \<open>localize\<close> is \<open>pytz.timezone('Asia/Tehran').localize\<close>; each returns its result
  or the exception it raises. The bare \<open>except\<close> catches whatever is raised and returns
  the fallback.
\<close>

definition parse_date_to_jalali ::
  "(ustring \<Rightarrow> py_error + datetime) \<Rightarrow> (datetime \<Rightarrow> py_error + datetime) \<Rightarrow> ustring \<Rightarrow> ustring" where
  "parse_date_to_jalali strptime localize date_str =
     (case strptime date_str of
        Inl _ \<Rightarrow> ustr ''jalali:'' @ date_str
      | Inr dt \<Rightarrow>
          (case localize dt of
             Inl _ \<Rightarrow> ustr ''jalali:'' @ date_str
           | Inr dt_tehran \<Rightarrow>
               (let j_year =
                      (if month dt_tehran < 3 \<or> (month dt_tehran = 3 \<and> day dt_tehran < 21)
                       then year dt_tehran - 621 else year dt_tehran - 620)
                in ustr ''jalali:'' @ format_0d 4 j_year @ ustr ''/'' @
                   format_0d 2 (month dt_tehran) @ ustr ''/'' @
                   format_0d 2 (day dt_tehran) @ ustr ''/'' @
                   format_0d 2 (hour dt_tehran) @ ustr '':'' @
                   format_0d 2 (minute dt_tehran))))"

subsection \<open>A reference instance of the two library calls\<close>

text \<open>
  To run the conversion on concrete timestamps, the two parameters are instantiated with
  the behaviour of the libraries (Python 3.11, C locale). \<open>strptime\<close> turns the format
  into the regular expression
  \<open>(1[0-2]|0[1-9]|[1-9])/(3[0-1]|[1-2]\d|0[1-9]|[1-9]| [1-9])/(\d\d\d\d)\s+(1[0-2]|0[1-9]|[1-9]):([0-5]\d|\d):(6[0-1]|[0-5]\d|\d)\s+(am|pm)\<close>,
  matched without regard to case, where \<open>\d\<close> is any decimal digit of Unicode; the
  match has to cover the whole string, the groups are read by \<open>int\<close>, and the
  \<open>datetime\<close> constructor then rejects a day that the month does not have, the year 0
  and the seconds 60 and 61. Each group below returns its matches in the order in which
  the regular expression tries them, with the rest of the string.
\<close>

definition is_space :: "nat \<Rightarrow> bool" where
  "is_space c \<longleftrightarrow>
     (0x09 \<le> c \<and> c \<le> 0x0D) \<or> (0x1C \<le> c \<and> c \<le> 0x20) \<or> c = 0x85 \<or> c = 0xA0 \<or>
     c = 0x1680 \<or> (0x2000 \<le> c \<and> c \<le> 0x200A) \<or> c = 0x2028 \<or> c = 0x2029 \<or>
     c = 0x202F \<or> c = 0x205F \<or> c = 0x3000"

definition in_range :: "nat \<Rightarrow> nat \<Rightarrow> nat \<Rightarrow> bool" where
  "in_range lo hi c \<longleftrightarrow> lo \<le> c \<and> c \<le> hi"

text \<open>The value of one of the digits \<open>0\<close> to \<open>9\<close> of ASCII.\<close>

definition digit_value :: "nat \<Rightarrow> int" where
  "digit_value c = int c - 48"

definition lit :: "nat \<Rightarrow> ustring \<Rightarrow> ustring list" where
  "lit c s = (case s of [] \<Rightarrow> [] | a # r \<Rightarrow> if a = c then [r] else [])"

definition group_m :: "ustring \<Rightarrow> (int \<times> ustring) list" where
  "group_m s =
     (case s of a # b # r \<Rightarrow>
        (if a = 49 \<and> in_range 48 50 b then [(10 + digit_value b, r)] else []) @
        (if a = 48 \<and> in_range 49 57 b then [(digit_value b, r)] else [])
      | _ \<Rightarrow> []) @
     (case s of a # r \<Rightarrow> if in_range 49 57 a then [(digit_value a, r)] else [] | _ \<Rightarrow> [])"

definition group_d :: "ustring \<Rightarrow> (int \<times> ustring) list" where
  "group_d s =
     (case s of a # b # r \<Rightarrow>
        (if a = 51 \<and> in_range 48 49 b then [(30 + digit_value b, r)] else []) @
        (if in_range 49 50 a \<and> decimal_digit b then [(10 * digit_value a + decimal_value b, r)] else []) @
        (if a = 48 \<and> in_range 49 57 b then [(digit_value b, r)] else [])
      | _ \<Rightarrow> []) @
     (case s of a # r \<Rightarrow> if in_range 49 57 a then [(digit_value a, r)] else [] | _ \<Rightarrow> []) @
     (case s of a # b # r \<Rightarrow> if a = 32 \<and> in_range 49 57 b then [(digit_value b, r)] else []
      | _ \<Rightarrow> [])"

definition group_Y :: "ustring \<Rightarrow> (int \<times> ustring) list" where
  "group_Y s =
     (case s of a # b # c # d # r \<Rightarrow>
        if decimal_digit a \<and> decimal_digit b \<and> decimal_digit c \<and> decimal_digit d
        then [(1000 * decimal_value a + 100 * decimal_value b + 10 * decimal_value c + decimal_value d, r)]
        else []
      | _ \<Rightarrow> [])"

definition group_M :: "ustring \<Rightarrow> (int \<times> ustring) list" where
  "group_M s =
     (case s of a # b # r \<Rightarrow>
        if in_range 48 53 a \<and> decimal_digit b then [(10 * digit_value a + decimal_value b, r)] else []
      | _ \<Rightarrow> []) @
     (case s of a # r \<Rightarrow> if decimal_digit a then [(decimal_value a, r)] else [] | _ \<Rightarrow> [])"

definition group_S :: "ustring \<Rightarrow> (int \<times> ustring) list" where
  "group_S s =
     (case s of a # b # r \<Rightarrow>
        (if a = 54 \<and> in_range 48 49 b then [(60 + digit_value b, r)] else []) @
        (if in_range 48 53 a \<and> decimal_digit b then [(10 * digit_value a + decimal_value b, r)] else [])
      | _ \<Rightarrow> []) @
     (case s of a # r \<Rightarrow> if decimal_digit a then [(decimal_value a, r)] else [] | _ \<Rightarrow> [])"

text \<open>
  \<open>\s+\<close> before a group that cannot start with white space: only the whole run of
  white space lets the rest match.
\<close>

definition spaces1 :: "ustring \<Rightarrow> ustring list" where
  "spaces1 s = (case s of [] \<Rightarrow> [] | a # r \<Rightarrow> if is_space a then [dropWhile is_space r] else [])"

text \<open>\<open>(am|pm)\<close> without regard to case; the result tells whether it is \<open>pm\<close>.\<close>

definition group_p :: "ustring \<Rightarrow> (bool \<times> ustring) list" where
  "group_p s =
     (case s of a # b # r \<Rightarrow>
        (if (a = 97 \<or> a = 65) \<and> (b = 109 \<or> b = 77) then [(False, r)] else []) @
        (if (a = 112 \<or> a = 80) \<and> (b = 109 \<or> b = 77) then [(True, r)] else [])
      | _ \<Rightarrow> [])"

definition format_matches :: "ustring \<Rightarrow> ((int \<times> int \<times> int \<times> int \<times> int \<times> int \<times> bool) \<times> ustring) list" where
  "format_matches s =
     List.bind (group_m s) (\<lambda>(m, s1).
     List.bind (lit 47 s1) (\<lambda>s2.
     List.bind (group_d s2) (\<lambda>(d, s3).
     List.bind (lit 47 s3) (\<lambda>s4.
     List.bind (group_Y s4) (\<lambda>(y, s5).
     List.bind (spaces1 s5) (\<lambda>s6.
     List.bind (group_m s6) (\<lambda>(i, s7).
     List.bind (lit 58 s7) (\<lambda>s8.
     List.bind (group_M s8) (\<lambda>(mi, s9).
     List.bind (lit 58 s9) (\<lambda>s10.
     List.bind (group_S s10) (\<lambda>(sec, s11).
     List.bind (spaces1 s11) (\<lambda>s12.
     List.bind (group_p s12) (\<lambda>(pm, s13).
       [((m, d, y, i, mi, sec, pm), s13)])))))))))))))"

definition days_in_month :: "int \<Rightarrow> int \<Rightarrow> int" where
  "days_in_month y m =
     (if m = 2 then (if y mod 4 = 0 \<and> (y mod 100 \<noteq> 0 \<or> y mod 400 = 0) then 29 else 28)
      else if m = 4 \<or> m = 6 \<or> m = 9 \<or> m = 11 then 30 else 31)"

definition strptime_library :: "ustring \<Rightarrow> py_error + datetime" where
  "strptime_library s =
     (case format_matches s of
        [] \<Rightarrow> Inl ValueError
      | ((m, d, y, i, mi, sec, pm), rest) # _ \<Rightarrow>
          if rest \<noteq> [] then Inl ValueError
          else if y < 1 \<or> days_in_month y m < d \<or> 59 < sec then Inl ValueError
          else Inr \<lparr>year = y, month = m, day = d,
                    hour = (if pm then (if i = 12 then 12 else i + 12) else (if i = 12 then 0 else i)),
                    minute = mi, second = sec\<rparr>)"

text \<open>
  \<open>localize\<close> of \<open>pytz\<close> first computes the day before and the day after the
  \<open>datetime\<close> it is given, which raises \<open>OverflowError\<close> on the first and on the
  last day that a \<open>datetime\<close> can hold; otherwise it attaches the time zone and leaves
  the calendar fields as they are.
\<close>

definition localize_tehran :: "datetime \<Rightarrow> py_error + datetime" where
  "localize_tehran dt =
     (if (year dt = 1 \<and> month dt = 1 \<and> day dt = 1) \<or>
         (year dt = 9999 \<and> month dt = 12 \<and> day dt = 31)
      then Inl OverflowError else Inr dt)"

section \<open>ninisite\_scraper.py: extracting the posts of a thread\<close>

text \<open>\<open>str.strip()\<close>: white space is removed at both ends.\<close>

definition strip :: "ustring \<Rightarrow> ustring" where
  "strip s = rev (dropWhile is_space (rev (dropWhile is_space s)))"

text \<open>
  The values stored in the dictionaries of the scraper, and the dictionaries themselves,
  whose keys are string literals. \<open>truthy\<close> is the value of a Python object as a
  condition; \<open>get_truthy d k\<close> is \<open>d.get(k)\<close> as a condition, a missing key giving
  \<open>None\<close>.
\<close>

datatype py_value = PyStr ustring | PyNone | PyBool bool | PyInt int | PyList "ustring list"

type_synonym py_dict = "string \<rightharpoonup> py_value"

fun truthy :: "py_value \<Rightarrow> bool" where
  "truthy (PyStr s) = (s \<noteq> [])"
| "truthy PyNone = False"
| "truthy (PyBool b) = b"
| "truthy (PyInt n) = (n \<noteq> 0)"
| "truthy (PyList xs) = (xs \<noteq> [])"

definition get_truthy :: "py_dict \<Rightarrow> string \<Rightarrow> bool" where
  "get_truthy d k = (case d k of None \<Rightarrow> False | Some v \<Rightarrow> truthy v)"

text \<open>\<open>tag.get(name)\<close> stored in a dictionary: the attribute's value, or \<open>None\<close>.\<close>

definition attr_value :: "ustring option \<Rightarrow> py_value" where
  "attr_value a = (case a of None \<Rightarrow> PyNone | Some v \<Rightarrow> PyStr v)"

text \<open>
  The pages come from the HTML parser, which is not part of the repository. An
  \<open>article\<close> tag is given by the answers to the queries that the scraper makes on it;
  \<open>None\<close> is a query that finds nothing:
  \<^item> \<open>art_id\<close>: \<open>article.get('id')\<close>; \<open>art_class\<close>: \<open>article.get('class', [])\<close>;
  \<^item> \<open>span_name\<close>: the text of \<open>find('span', itemprop='name')\<close>;
  \<^item> \<open>a_url\<close>: the \<open>href\<close> of \<open>find('a', itemprop='url')\<close>;
  \<^item> \<open>reg_date\<close>, \<open>post_count\<close>: the texts of \<open>find('div', class_='reg-date')\<close>
    and \<open>find('div', class_='post-count')\<close>;
  \<^item> \<open>meta_datepublished\<close>, \<open>meta_views\<close>: the \<open>content\<close> of
    \<open>find('meta', itemprop='datepublished')\<close> and of
    \<open>find('meta', itemprop='userInteractionCount')\<close>;
  \<^item> \<open>post_message\<close>: \<open>find('div', class_='post-message')\<close>, its text and its markup;
  \<^item> \<open>quotation\<close>: \<open>find('div', class_='topic-post__quotation')\<close>, in it
    \<open>find('div', class_='reply-message')\<close>, its text and its \<open>data-id\<close>;
  \<^item> \<open>like_count\<close>: \<open>find('a', class_='like-count')\<close>, in it the text of
    \<open>find('span')\<close>;
  \<^item> \<open>signature\<close>: the text of \<open>find('div', class_='topic-post__signature')\<close>.
\<close>

record article =
  art_id :: "ustring option"
  art_class :: "ustring list"
  span_name :: "ustring option"
  a_url :: "ustring option option"
  reg_date :: "ustring option"
  post_count :: "ustring option"
  meta_datepublished :: "ustring option option"
  meta_views :: "ustring option option"
  post_message :: "(ustring \<times> ustring) option"
  quotation :: "(ustring \<times> ustring option) option option"
  like_count :: "ustring option option"
  signature :: "ustring option"

text \<open>
  A page, by the answers to the queries made on it:
  \<^item> \<open>find_topic\<close>: \<open>soup.find('article', id='topic')\<close>;
  \<^item> \<open>find_replies\<close>: \<open>soup.find_all('article', id=re.compile(r'post-\d+'))\<close>, in
    document order;
  \<^item> \<open>find_title\<close>: \<open>soup.find('h1', class_='topic-title')\<close>, the text of the link
    in it and its own text;
  \<^item> \<open>find_breadcrumb\<close>: the list found by
    \<open>soup.find('ol', itemtype='http://schema.org/BreadcrumbList')\<close>, for each of its
    items the text of \<open>find('span', itemprop='name')\<close>.
\<close>

record page =
  find_topic :: "article option"
  find_replies :: "article list"
  find_title :: "(ustring option \<times> ustring) option"
  find_breadcrumb :: "ustring option list option"

text \<open>
  \<open>NinisiteScraper.extract_post_data\<close> fills the dictionary \<open>post\<close> block by block;
  each block of the source is one function from the dictionary before it to the
  dictionary after it.
\<close>

definition set_id :: "article \<Rightarrow> py_dict \<Rightarrow> py_dict" where
  "set_id article post =
     (case art_id article of
        Some post_id \<Rightarrow> if post_id \<noteq> [] then post(''id'' \<mapsto> PyStr post_id) else post
      | None \<Rightarrow> post)"

definition set_author :: "article \<Rightarrow> py_dict \<Rightarrow> py_dict" where
  "set_author article post =
     (case span_name article of
        Some text \<Rightarrow> post(''author'' \<mapsto> PyStr (strip text))
      | None \<Rightarrow> post)"

definition set_author_profile :: "article \<Rightarrow> py_dict \<Rightarrow> py_dict" where
  "set_author_profile article post =
     (case a_url article of
        Some href \<Rightarrow> post(''author_profile'' \<mapsto> attr_value href)
      | None \<Rightarrow> post)"

definition set_author_join_date :: "article \<Rightarrow> py_dict \<Rightarrow> py_dict" where
  "set_author_join_date article post =
     (case reg_date article of
        Some text \<Rightarrow> post(''author_join_date'' \<mapsto> PyStr (strip text))
      | None \<Rightarrow> post)"

definition set_author_post_count :: "article \<Rightarrow> py_dict \<Rightarrow> py_dict" where
  "set_author_post_count article post =
     (case post_count article of
        Some text \<Rightarrow> post(''author_post_count'' \<mapsto> PyStr (strip text))
      | None \<Rightarrow> post)"

definition set_date :: "article \<Rightarrow> py_dict \<Rightarrow> py_dict" where
  "set_date article post =
     (case meta_datepublished article of
        Some c \<Rightarrow> post(''date'' \<mapsto> attr_value c)
      | None \<Rightarrow> post)"

definition set_content :: "article \<Rightarrow> py_dict \<Rightarrow> py_dict" where
  "set_content article post =
     (case post_message article of
        Some (text, markup) \<Rightarrow>
          post(''content'' \<mapsto> PyStr (strip text), ''content_html'' \<mapsto> PyStr markup)
      | None \<Rightarrow> post)"

definition set_quote :: "article \<Rightarrow> py_dict \<Rightarrow> py_dict" where
  "set_quote article post =
     (case quotation article of
        Some (Some (text, ref_id)) \<Rightarrow>
          (let post = post(''quoted_content'' \<mapsto> PyStr (strip text)) in
           case ref_id of
             Some r \<Rightarrow> if r \<noteq> [] then post(''reply_to_id'' \<mapsto> PyStr r) else post
           | None \<Rightarrow> post)
      | _ \<Rightarrow> post)"

definition set_likes :: "article \<Rightarrow> py_dict \<Rightarrow> py_dict" where
  "set_likes article post =
     (case like_count article of
        Some (Some text) \<Rightarrow> post(''likes'' \<mapsto> PyStr (strip text))
      | _ \<Rightarrow> post)"

definition set_signature :: "article \<Rightarrow> py_dict \<Rightarrow> py_dict" where
  "set_signature article post =
     (case signature article of
        Some text \<Rightarrow> post(''signature'' \<mapsto> PyStr (strip text))
      | None \<Rightarrow> post)"

definition extract_post_data :: "article \<Rightarrow> bool \<Rightarrow> py_dict option" where
  "extract_post_data article is_main_topic =
     (let post = Map.empty;
          post = set_id article post;
          post = set_author article post;
          post = set_author_profile article post;
          post = set_author_join_date article post;
          post = set_author_post_count article post;
          post = set_date article post;
          post = set_content article post;
          post = set_quote article post;
          post = set_likes article post;
          post = set_signature article post;
          post = post(''is_main_topic'' \<mapsto> PyBool is_main_topic)
      in if get_truthy post ''content'' \<or> get_truthy post ''is_main_topic'' then Some post else None)"

text \<open>
  \<open>NinisiteScraper.extract_posts\<close>: the inner loop over the reply articles of one page,
  and the outer loop over the pages, numbered from 1, with the list \<open>all_posts\<close>.
\<close>

fun reply_loop :: "int \<Rightarrow> article list \<Rightarrow> py_dict list \<Rightarrow> py_dict list" where
  "reply_loop page_num [] all_posts = all_posts"
| "reply_loop page_num (article # reply_articles) all_posts =
     (if ustr ''forum-native-ad'' \<in> set (art_class article)
      then reply_loop page_num reply_articles all_posts
      else case extract_post_data article False of
             Some post \<Rightarrow>
               reply_loop page_num reply_articles (all_posts @ [post(''page'' \<mapsto> PyInt page_num)])
           | None \<Rightarrow> reply_loop page_num reply_articles all_posts)"

fun page_loop :: "int \<Rightarrow> page list \<Rightarrow> py_dict list \<Rightarrow> py_dict list" where
  "page_loop page_num [] all_posts = all_posts"
| "page_loop page_num (soup # pages) all_posts =
     (let all_posts =
            (if page_num = 1 then
               (case find_topic soup of
                  Some article \<Rightarrow>
                    (case extract_post_data article True of
                       Some post \<Rightarrow> all_posts @ [post(''page'' \<mapsto> PyInt page_num)]
                     | None \<Rightarrow> all_posts)
                | None \<Rightarrow> all_posts)
             else all_posts);
          all_posts = reply_loop page_num (find_replies soup) all_posts
      in page_loop (page_num + 1) pages all_posts)"

definition extract_posts :: "page list \<Rightarrow> py_dict list" where
  "extract_posts pages = page_loop 1 pages []"

text \<open>The flag of a post: \<open>post['is_main_topic']\<close> is \<open>True\<close>.\<close>

definition is_main_topic :: "py_dict \<Rightarrow> bool" where
  "is_main_topic post \<longleftrightarrow> post ''is_main_topic'' = Some (PyBool True)"

text \<open>\<open>NinisiteScraper.extract_topic_metadata\<close>.\<close>

definition extract_topic_metadata :: "page \<Rightarrow> py_dict" where
  "extract_topic_metadata soup =
     (let metadata = Map.empty;
          metadata = (case find_title soup of
                        Some (title_link, text) \<Rightarrow>
                          metadata(''title'' \<mapsto>
                            PyStr (case title_link of Some t \<Rightarrow> strip t | None \<Rightarrow> strip text))
                      | None \<Rightarrow> metadata);
          metadata = (case find_topic soup of
                        Some article \<Rightarrow>
                          (let metadata = (case span_name article of
                                             Some text \<Rightarrow> metadata(''author'' \<mapsto> PyStr (strip text))
                                           | None \<Rightarrow> metadata);
                               metadata = (case meta_datepublished article of
                                             Some c \<Rightarrow> metadata(''date'' \<mapsto> attr_value c)
                                           | None \<Rightarrow> metadata);
                               metadata = (case meta_views article of
                                             Some c \<Rightarrow> metadata(''views'' \<mapsto> attr_value c)
                                           | None \<Rightarrow> metadata)
                           in metadata)
                      | None \<Rightarrow> metadata);
          metadata = (case find_breadcrumb soup of
                        Some items \<Rightarrow>
                          metadata(''categories'' \<mapsto>
                            PyList (tl (map strip (List.map_filter (\<lambda>x. x) items))))
                      | None \<Rightarrow> metadata)
      in metadata)"

text \<open>
  Pages to run the extraction on: one with a reply only, one with a topic article on which
  every query finds nothing, and one with a reply whose like count reads \<open>abc\<close>.
\<close>

definition empty_article :: article where
  "empty_article =
     \<lparr>art_id = None, art_class = [], span_name = None, a_url = None, reg_date = None,
      post_count = None, meta_datepublished = None, meta_views = None, post_message = None,
      quotation = None, like_count = None, signature = None\<rparr>"

definition reply_article :: article where
  "reply_article =
     empty_article\<lparr>art_id := Some (ustr ''post-1''),
                   post_message := Some (ustr '' hello '', ustr ''<div class=\"post-message\"> hello </div>'')\<rparr>"

definition reply_only_page :: page where
  "reply_only_page =
     \<lparr>find_topic = None, find_replies = [reply_article], find_title = None, find_breadcrumb = None\<rparr>"

definition liked_article :: article where
  "liked_article = reply_article\<lparr>like_count := Some (Some (ustr ''abc''))\<rparr>"

definition liked_page :: page where
  "liked_page =
     \<lparr>find_topic = None, find_replies = [liked_article], find_title = None, find_breadcrumb = None\<rparr>"

definition topic_page :: page where
  "topic_page =
     \<lparr>find_topic = Some empty_article, find_replies = [reply_article], find_title = None,
      find_breadcrumb = None\<rparr>"

section \<open>ninisite\_scraper\_v2.py: removing duplicates\<close>

text \<open>The dictionary that \<open>NiniesiteScraper.extract_post_data\<close> builds.\<close>

record post_data =
  post_content :: ustring
  post_username :: ustring
  post_timestamp :: ustring
  post_number :: ustring
  post_user_info :: "(ustring \<times> ustring) list"

text \<open>
  The loop at the end of \<open>NiniesiteScraper.scrape_thread\<close>, with its two variables
  \<open>seen_content\<close> and \<open>unique_posts\<close>. The built-in \<open>hash\<close> of strings is a parameter.
\<close>

fun unique_loop ::
  "(ustring \<Rightarrow> int) \<Rightarrow> post_data list \<Rightarrow> int set \<times> post_data list \<Rightarrow> int set \<times> post_data list" where
  "unique_loop hash [] (seen_content, unique_posts) = (seen_content, unique_posts)"
| "unique_loop hash (post # all_posts) (seen_content, unique_posts) =
     (let content_hash = hash (take 100 (post_content post)) in
      if content_hash \<notin> seen_content
      then unique_loop hash all_posts (insert content_hash seen_content, unique_posts @ [post])
      else unique_loop hash all_posts (seen_content, unique_posts))"

definition unique_posts :: "(ustring \<Rightarrow> int) \<Rightarrow> post_data list \<Rightarrow> post_data list" where
  "unique_posts hash all_posts = snd (unique_loop hash all_posts ({}, []))"

text \<open>The fingerprint of a post: the hash of the first 100 characters of its content.\<close>

definition fingerprint :: "(ustring \<Rightarrow> int) \<Rightarrow> post_data \<Rightarrow> int" where
  "fingerprint hash post = hash (take 100 (post_content post))"

text \<open>
  The posts of a list whose fingerprint is neither in \<open>seen\<close> nor carried by an earlier
  post of the list: what the loop appends, as a function of the list that is still to be
  read.
\<close>

fun unseen :: "(ustring \<Rightarrow> int) \<Rightarrow> int set \<Rightarrow> post_data list \<Rightarrow> post_data list" where
  "unseen hash seen [] = []"
| "unseen hash seen (p # ps) =
     (if fingerprint hash p \<in> seen then unseen hash seen ps
      else p # unseen hash (insert (fingerprint hash p) seen) ps)"

section \<open>ninisite\_scraper\_v2.py: cleaning and validating content\<close>

subsection \<open>Regular expressions and string operations\<close>

text \<open>
  \<open>re.sub(pattern, repl, s)\<close> for a pattern that matches no empty string: the string
  is scanned from the left; where the pattern matches, the match is replaced and the scan
  goes on after it; elsewhere the character is kept. The pattern is given by a function
  that returns what follows its match at the start of a string, if there is one. (The
  test on the lengths only says that a match is not empty.)
\<close>

function sub_matches :: "(ustring \<Rightarrow> ustring option) \<Rightarrow> ustring \<Rightarrow> ustring \<Rightarrow> ustring" where
  "sub_matches m repl [] = []"
| "sub_matches m repl (c # cs) =
     (case m (c # cs) of
        Some rest \<Rightarrow>
          if length rest < length (c # cs) then repl @ sub_matches m repl rest
          else c # sub_matches m repl cs
      | None \<Rightarrow> c # sub_matches m repl cs)"
  by pat_completeness auto
termination
  by (relation "measure (\<lambda>(m, repl, s). length s)") auto

text \<open>A literal at the start of a string; \<open>old in s\<close> for a literal \<open>old\<close>.\<close>

definition after_prefix :: "ustring \<Rightarrow> ustring \<Rightarrow> ustring option" where
  "after_prefix p s = (if prefix p s then Some (drop (length p) s) else None)"

fun contains :: "ustring \<Rightarrow> ustring \<Rightarrow> bool" where
  "contains old [] = (old = [])"
| "contains old (c # cs) = (prefix old (c # cs) \<or> contains old cs)"

text \<open>\<open>\d{n}\<close>, for the class \<open>dig\<close> of the decimal digits.\<close>

definition digits_n :: "(nat \<Rightarrow> bool) \<Rightarrow> nat \<Rightarrow> ustring \<Rightarrow> ustring option" where
  "digits_n dig n s = (if n \<le> length s \<and> list_all dig (take n s) then Some (drop n s) else None)"

text \<open>\<open>\d{4}/\d{2}/\d{2}\<close>\<close>

definition match_date :: "(nat \<Rightarrow> bool) \<Rightarrow> ustring \<Rightarrow> ustring option" where
  "match_date dig s =
     Option.bind (digits_n dig 4 s) (\<lambda>s1.
     Option.bind (after_prefix [47] s1) (\<lambda>s2.
     Option.bind (digits_n dig 2 s2) (\<lambda>s3.
     Option.bind (after_prefix [47] s3) (\<lambda>s4.
     digits_n dig 2 s4))))"

text \<open>\<open>\s+\<close>\<close>

definition match_spaces :: "ustring \<Rightarrow> ustring option" where
  "match_spaces s =
     (case s of [] \<Rightarrow> None | c # cs \<Rightarrow> if is_space c then Some (dropWhile is_space cs) else None)"

text \<open>\<open>\\+\<close>\<close>

definition match_backslashes :: "ustring \<Rightarrow> ustring option" where
  "match_backslashes s =
     (case s of [] \<Rightarrow> None | c # cs \<Rightarrow> if c = 92 then Some (dropWhile (\<lambda>x. x = 92) cs) else None)"

text \<open>\<open>\s*[|:]+\s*\<close>\<close>

definition is_punct :: "nat \<Rightarrow> bool" where
  "is_punct c \<longleftrightarrow> c = 124 \<or> c = 58"

definition match_punct :: "ustring \<Rightarrow> ustring option" where
  "match_punct s =
     (case dropWhile is_space s of
        [] \<Rightarrow> None
      | p # r \<Rightarrow> if is_punct p then Some (dropWhile is_space (dropWhile is_punct r)) else None)"

text \<open>The Persian literals of the source, by their code points.\<close>

definition term_tabadol_nazar :: ustring where
  "term_tabadol_nazar = [0x62A, 0x628, 0x627, 0x62F, 0x644, 0x20, 0x646, 0x638, 0x631]"

definition term_sabt_nam :: ustring where
  "term_sabt_nam = [0x62B, 0x628, 0x62A, 0x20, 0x646, 0x627, 0x645]"

definition term_majalle :: ustring where
  "term_majalle = [0x645, 0x62C, 0x644, 0x647]"

definition term_forushgah :: ustring where
  "term_forushgah = [0x641, 0x631, 0x648, 0x634, 0x6AF, 0x627, 0x647]"

definition term_bardari :: ustring where
  "term_bardari = [0x628, 0x627, 0x631, 0x62F, 0x627, 0x631, 0x6CC]"

definition term_moshaverin :: ustring where
  "term_moshaverin = [0x645, 0x634, 0x627, 0x648, 0x631, 0x6CC, 0x646]"

definition term_kanun :: ustring where
  "term_kanun = [0x6A9, 0x627, 0x646, 0x648, 0x646]"

definition term_daste_bandi :: ustring where
  "term_daste_bandi = [0x62F, 0x633, 0x62A, 0x647, 0x20, 0x628, 0x646, 0x62F, 0x6CC]"

definition label_tedad_post :: ustring where
  "label_tedad_post = [0x62A, 0x639, 0x62F, 0x627, 0x62F, 0x20, 0x67E, 0x633, 0x62A]"

definition label_ozviat :: ustring where
  "label_ozviat = [0x639, 0x636, 0x648, 0x6CC, 0x62A]"

definition label_emtiaz :: ustring where
  "label_emtiaz = [0x627, 0x645, 0x62A, 0x6CC, 0x627, 0x632]"

definition word_modir :: ustring where
  "word_modir = [0x645, 0x62F, 0x6CC, 0x631]"

definition word_starter :: ustring where
  "word_starter = [0x627, 0x633, 0x62A, 0x627, 0x631, 0x62A, 0x631]"

text \<open>
  \<open>:\s*[\d/]+\<close> after one of the labels, and the whole pattern
  \<open>(label|label|label):\s*[\d/]+\<close>, whose alternatives are tried in their order.
\<close>

definition match_label_value :: "(nat \<Rightarrow> bool) \<Rightarrow> ustring \<Rightarrow> ustring option" where
  "match_label_value dig s =
     (case s of
        [] \<Rightarrow> None
      | c # r \<Rightarrow>
          if c = 58 then
            (case dropWhile is_space r of
               [] \<Rightarrow> None
             | d # r' \<Rightarrow> if dig d \<or> d = 47 then Some (dropWhile (\<lambda>x. dig x \<or> x = 47) r') else None)
          else None)"

definition match_label :: "(nat \<Rightarrow> bool) \<Rightarrow> ustring \<Rightarrow> ustring option" where
  "match_label dig s =
     (case Option.bind (after_prefix label_tedad_post s) (match_label_value dig) of
        Some rest \<Rightarrow> Some rest
      | None \<Rightarrow>
          (case Option.bind (after_prefix label_ozviat s) (match_label_value dig) of
             Some rest \<Rightarrow> Some rest
           | None \<Rightarrow> Option.bind (after_prefix label_emtiaz s) (match_label_value dig)))"

text \<open>\<open>len(s.split())\<close>: the words of a string are its maximal runs without white space.\<close>

function split_ws :: "ustring \<Rightarrow> ustring list" where
  "split_ws [] = []"
| "split_ws (c # cs) =
     (if is_space c then split_ws cs
      else (c # takeWhile (\<lambda>x. \<not> is_space x) cs) # split_ws (dropWhile (\<lambda>x. \<not> is_space x) cs))"
  by pat_completeness auto
termination
  by (relation "measure length") (auto simp: le_imp_less_Suc length_dropWhile_le)

subsection \<open>The rules of \<open>clean_content\<close>, in the order of the source\<close>

definition collapse_whitespace :: "ustring \<Rightarrow> ustring" where
  "collapse_whitespace s = sub_matches match_spaces [32] s"

definition strip_escapes :: "ustring \<Rightarrow> ustring" where
  "strip_escapes s = sub_matches match_backslashes [] s"

definition strip_punctuation :: "ustring \<Rightarrow> ustring" where
  "strip_punctuation s = sub_matches match_punct [32] s"

definition remove_labels :: "(nat \<Rightarrow> bool) \<Rightarrow> ustring \<Rightarrow> ustring" where
  "remove_labels dig s = sub_matches (match_label dig) [] s"

definition nav_terms :: "ustring list" where
  "nav_terms = [term_tabadol_nazar, term_sabt_nam, term_majalle, term_forushgah, term_bardari,
                term_moshaverin, term_kanun, term_daste_bandi]"

text \<open>\<open>s.replace(term, '')\<close>, and the loop over the terms.\<close>

definition remove_term :: "ustring \<Rightarrow> ustring \<Rightarrow> ustring" where
  "remove_term term s = sub_matches (after_prefix term) [] s"

definition remove_nav_terms :: "ustring \<Rightarrow> ustring" where
  "remove_nav_terms s = foldl (\<lambda>content term. remove_term term content) s nav_terms"

text \<open>
  \<open>re.sub(r'^\s*\d{4}/\d{2}/\d{2}\s*$', '', s)\<close>: the pattern can only match the whole
  string.
\<close>

definition is_date_line :: "(nat \<Rightarrow> bool) \<Rightarrow> ustring \<Rightarrow> bool" where
  "is_date_line dig s =
     (case match_date dig (dropWhile is_space s) of
        None \<Rightarrow> False
      | Some rest \<Rightarrow> list_all is_space rest)"

definition remove_date_line :: "(nat \<Rightarrow> bool) \<Rightarrow> ustring \<Rightarrow> ustring" where
  "remove_date_line dig s = (if is_date_line dig s then [] else s)"

definition reject_short :: "ustring \<Rightarrow> ustring" where
  "reject_short s = (let content = strip s in if length content < 30 then [] else content)"

text \<open>
  \<open>NiniesiteScraper.clean_content\<close>. The class \<open>dig\<close> of the characters that \<open>\d\<close>
  matches, the decimal digits of Unicode, is a parameter.
\<close>

definition clean_content :: "(nat \<Rightarrow> bool) \<Rightarrow> ustring \<Rightarrow> ustring" where
  "clean_content dig content =
     (if content = [] then []
      else let content = collapse_whitespace content;
               content = strip_escapes content;
               content = strip_punctuation content;
               content = remove_labels dig content;
               content = remove_nav_terms content;
               content = remove_date_line dig content
           in reject_short content)"

subsection \<open>\<open>NiniesiteScraper.is_valid_post\<close>\<close>

text \<open>
  \<open>$\<close> matches at the end of the string and before a line feed that ends the string.
\<close>

definition at_end :: "ustring \<Rightarrow> bool" where
  "at_end s \<longleftrightarrow> s = [] \<or> s = [10]"

text \<open>\<open>re.match\<close> of the four metadata patterns, in the order of the source.\<close>

definition metadata_patterns :: "(nat \<Rightarrow> bool) \<Rightarrow> (ustring \<Rightarrow> bool) list" where
  "metadata_patterns dig =
     [\<lambda>s. case match_label dig s of None \<Rightarrow> False | Some rest \<Rightarrow> at_end rest,
      \<lambda>s. case match_date dig s of None \<Rightarrow> False | Some rest \<Rightarrow> list_all is_space rest,
      \<lambda>s. s \<noteq> [] \<and> list_all (\<lambda>c. is_punct c \<or> is_space c) s,
      \<lambda>s. (case after_prefix word_modir s of Some rest \<Rightarrow> at_end rest | None \<Rightarrow> False) \<or>
          (case after_prefix word_starter s of Some rest \<Rightarrow> at_end rest | None \<Rightarrow> False)]"

definition matches_metadata :: "(nat \<Rightarrow> bool) \<Rightarrow> ustring \<Rightarrow> bool" where
  "matches_metadata dig content = list_ex (\<lambda>pattern. pattern (strip content)) (metadata_patterns dig)"

definition nav_ratio :: "ustring \<Rightarrow> nat" where
  "nav_ratio content =
     length (filter (\<lambda>term. contains term content)
               [term_tabadol_nazar, term_sabt_nam, term_majalle, term_forushgah])"

definition has_persian :: "ustring \<Rightarrow> bool" where
  "has_persian content = list_ex (\<lambda>c. 0x0600 \<le> c \<and> c \<le> 0x06FF) content"

definition word_count :: "ustring \<Rightarrow> nat" where
  "word_count content = length (split_ws content)"

definition is_valid_post :: "(nat \<Rightarrow> bool) \<Rightarrow> post_data option \<Rightarrow> bool" where
  "is_valid_post dig post_data =
     (case post_data of
        None \<Rightarrow> False
      | Some post \<Rightarrow>
          if post_content post = [] then False
          else if length (post_content post) < 30 then False
          else if matches_metadata dig (post_content post) then False
          else if 2 < nav_ratio (post_content post) then False
          else has_persian (post_content post) \<and> 5 \<le> word_count (post_content post) \<and>
               word_count (post_content post) \<le> 200)"

subsection \<open>\<open>NiniesiteScraper.extract_post_data\<close>\<close>

text \<open>
  The element of a candidate post, by the answers to the queries made on it:
  \<^item> \<open>a_username\<close>: the text of \<open>find('a', class_='username')\<close>;
  \<^item> \<open>a_user_href\<close>: the text of \<open>find('a', href=re.compile(r'/user/'))\<close>;
  \<^item> \<open>div_post_content\<close>: the first \<open>div\<close> whose class contains \<open>post-content\<close>,
    with the text of the first \<open>p\<close> in it, if there is one, and its own text;
  \<^item> \<open>span_timestamp\<close>: the text of \<open>find('span', class_='timestamp')\<close>;
  \<^item> \<open>elem_text\<close>: \<open>post_elem.get_text()\<close>.
\<close>

record post_elem =
  a_username :: "ustring option"
  a_user_href :: "ustring option"
  div_post_content :: "(ustring option \<times> ustring) option"
  span_timestamp :: "ustring option"
  elem_text :: ustring

text \<open>The two patterns removed from the text of an element without a content container.\<close>

definition match_join_date :: "(nat \<Rightarrow> bool) \<Rightarrow> ustring \<Rightarrow> ustring option" where
  "match_join_date dig s =
     Option.bind (after_prefix (label_ozviat @ [58]) s) (\<lambda>r. match_date dig (dropWhile is_space r))"

definition match_post_count :: "(nat \<Rightarrow> bool) \<Rightarrow> ustring \<Rightarrow> ustring option" where
  "match_post_count dig s =
     Option.bind (after_prefix (label_tedad_post @ [58]) s) (\<lambda>r.
       case dropWhile is_space r of
         [] \<Rightarrow> None
       | d # r' \<Rightarrow> if dig d then Some (dropWhile dig r') else None)"

text \<open>
  \<open>re.search(r'\d{4}/\d{2}/\d{2}\s*\|?\s*\d{2}:\d{2}', s)\<close>: the text of the leftmost
  match.
\<close>

definition match_timestamp :: "(nat \<Rightarrow> bool) \<Rightarrow> ustring \<Rightarrow> ustring option" where
  "match_timestamp dig s =
     Option.bind (match_date dig s) (\<lambda>r.
       let r1 = dropWhile is_space r;
           r2 = (case r1 of [] \<Rightarrow> r1 | c # r' \<Rightarrow> if c = 124 then dropWhile is_space r' else r1)
       in Option.bind (digits_n dig 2 r2) (\<lambda>r3.
          Option.bind (after_prefix [58] r3) (\<lambda>r4.
          digits_n dig 2 r4)))"

fun search_timestamp :: "(nat \<Rightarrow> bool) \<Rightarrow> ustring \<Rightarrow> ustring option" where
  "search_timestamp dig [] = None"
| "search_timestamp dig (c # cs) =
     (case match_timestamp dig (c # cs) of
        Some rest \<Rightarrow> Some (take (length (c # cs) - length rest) (c # cs))
      | None \<Rightarrow> search_timestamp dig cs)"

definition extract_post_data_v2 :: "(nat \<Rightarrow> bool) \<Rightarrow> post_elem \<Rightarrow> post_data option" where
  "extract_post_data_v2 dig elem =
     (let post_data = \<lparr>post_content = [], post_username = [], post_timestamp = [], post_number = [], post_user_info = []\<rparr>;
          post_data =
            (case a_username elem of
               Some text \<Rightarrow> post_data\<lparr>post_username := strip text\<rparr>
             | None \<Rightarrow>
                 (case a_user_href elem of
                    Some text \<Rightarrow> post_data\<lparr>post_username := strip text\<rparr>
                  | None \<Rightarrow> post_data));
          content =
            (case div_post_content elem of
               Some (content_p, text) \<Rightarrow>
                 (case content_p of Some p_text \<Rightarrow> strip p_text | None \<Rightarrow> strip text)
             | None \<Rightarrow>
                 (let content = strip (elem_text elem);
                      content = sub_matches (match_join_date dig) [] content;
                      content = sub_matches (match_post_count dig) [] content
                  in content));
          post_data =
            (case span_timestamp elem of
               Some text \<Rightarrow> post_data\<lparr>post_timestamp := strip text\<rparr>
             | None \<Rightarrow>
                 (case search_timestamp dig (elem_text elem) of
                    Some m \<Rightarrow> post_data\<lparr>post_timestamp := m\<rparr>
                  | None \<Rightarrow> post_data));
          content = clean_content dig content;
          post_data = post_data\<lparr>post_content := content\<rparr>
      in if content \<noteq> [] then Some post_data else None)"

section \<open>ninisite\_scraper.py: writing the org-mode text\<close>

text \<open>
  What the writer takes from outside the repository:
  \<^item> \<open>lib_strptime\<close> and \<open>lib_localize\<close>, the two library calls of
    \<open>parse_date_to_jalali\<close>;
  \<^item> \<open>lib_now\<close>: \<open>datetime.now().strftime("%m/%d/%Y %I:%M:%S %p")\<close>;
  \<^item> \<open>lib_urlpath\<close>: \<open>urlparse(url).path\<close>;
  \<^item> \<open>lib_isdigit\<close>: the characters of which \<open>str.isdigit\<close> holds.
\<close>

record library =
  lib_strptime :: "ustring \<Rightarrow> py_error + datetime"
  lib_localize :: "datetime \<Rightarrow> py_error + datetime"
  lib_now :: ustring
  lib_urlpath :: "ustring \<Rightarrow> ustring"
  lib_isdigit :: "nat \<Rightarrow> bool"

text \<open>\<open>str(n)\<close> of an integer, \<open>sep.join(xs)\<close> and \<open>s.split(sep)\<close>.\<close>

definition int_str :: "int \<Rightarrow> ustring" where
  "int_str n = (if n < 0 then 45 # decimal (nat (- n)) else decimal (nat n))"

fun join :: "ustring \<Rightarrow> ustring list \<Rightarrow> ustring" where
  "join sep [] = []"
| "join sep [x] = x"
| "join sep (x # y # ys) = x @ sep @ join sep (y # ys)"

fun split_on :: "nat \<Rightarrow> ustring \<Rightarrow> ustring list" where
  "split_on sep [] = [[]]"
| "split_on sep (c # cs) =
     (if c = sep then [] # split_on sep cs
      else case split_on sep cs of [] \<Rightarrow> [[c]] | w # ws \<Rightarrow> (c # w) # ws)"

text \<open>
  \<open>int(s)\<close> of a string: white space around the number is ignored, a sign may come
  first, the digits are decimal digits of any script, with single underscores allowed
  between digits; more than 4300 digits, or anything else, raise \<open>ValueError\<close>.
\<close>

definition int_digits_ok :: "ustring \<Rightarrow> bool" where
  "int_digits_ok body \<longleftrightarrow>
     body \<noteq> [] \<and> decimal_digit (hd body) \<and> decimal_digit (last body) \<and>
     list_all (\<lambda>c. decimal_digit c \<or> c = 95) body \<and> \<not> contains [95, 95] body"

definition py_int :: "ustring \<Rightarrow> py_error + int" where
  "py_int s =
     (let t = strip s;
          negative = (t \<noteq> [] \<and> hd t = 45);
          body = (if t \<noteq> [] \<and> (hd t = 45 \<or> hd t = 43) then tl t else t);
          digits = filter decimal_digit body
      in if int_digits_ok body \<and> length digits \<le> 4300
         then Inr ((if negative then - 1 else 1) * foldl (\<lambda>n c. 10 * n + decimal_value c) 0 digits)
         else Inl ValueError)"

text \<open>
  \<open>re.search(pattern, s)\<close> for a pattern that matches no empty string: the text of the
  leftmost match. \<open>\d+\<close> and \<open>page=\d+\<close>.
\<close>

fun search_match :: "(ustring \<Rightarrow> ustring option) \<Rightarrow> ustring \<Rightarrow> ustring option" where
  "search_match m [] = None"
| "search_match m (c # cs) =
     (case m (c # cs) of
        Some rest \<Rightarrow> Some (take (length (c # cs) - length rest) (c # cs))
      | None \<Rightarrow> search_match m cs)"

definition match_digits :: "ustring \<Rightarrow> ustring option" where
  "match_digits s =
     (case s of [] \<Rightarrow> None | d # r \<Rightarrow> if decimal_digit d then Some (dropWhile decimal_digit r) else None)"

definition match_page_param :: "ustring \<Rightarrow> ustring option" where
  "match_page_param s = Option.bind (after_prefix (ustr ''page='') s) match_digits"

text \<open>\<open>NinisiteScraper.extract_topic_id\<close>\<close>

definition extract_topic_id :: "library \<Rightarrow> ustring \<Rightarrow> ustring" where
  "extract_topic_id L url =
     (case filter (\<lambda>part. part \<noteq> [] \<and> list_all (lib_isdigit L) part) (split_on 47 (lib_urlpath L url)) of
        part # _ \<Rightarrow> part
      | [] \<Rightarrow> ustr ''unknown'')"

text \<open>\<open>NinisiteScraper.clean_author_info\<close>\<close>

definition clean_author_info :: "ustring \<Rightarrow> ustring \<Rightarrow> ustring \<times> ustring" where
  "clean_author_info author_join_date author_post_count =
     (let join_date =
            (if author_join_date \<noteq> [] then
               (case search_match (match_date decimal_digit) author_join_date of
                  Some m \<Rightarrow> m | None \<Rightarrow> [])
             else []);
          post_count =
            (if author_post_count \<noteq> [] then
               (case search_match match_digits author_post_count of Some m \<Rightarrow> m | None \<Rightarrow> [])
             else [])
      in (join_date, post_count))"

text \<open>
  The writer reads the dictionaries that the extraction builds. There a key that is
  present holds a string, except \<open>date\<close>, which may hold \<open>None\<close>, \<open>page\<close>, which
  holds an integer, the flag, and the keys that the writer does not read. On a
  dictionary that holds a value of another type under a key that the writer reads, the
  writer is not modelled. \<open>text_at d k dflt\<close> is \<open>d.get(k, dflt)\<close> for a key that
  holds a string; it is \<open>dflt\<close> as well where the key holds \<open>None\<close>, which is false
  as a condition like the empty string.
\<close>

definition holds_text :: "py_dict \<Rightarrow> string \<Rightarrow> bool" where
  "holds_text d k = (case d k of None \<Rightarrow> True | Some (PyStr _) \<Rightarrow> True | Some _ \<Rightarrow> False)"

definition holds_text_or_none :: "py_dict \<Rightarrow> string \<Rightarrow> bool" where
  "holds_text_or_none d k =
     (case d k of None \<Rightarrow> True | Some (PyStr _) \<Rightarrow> True | Some PyNone \<Rightarrow> True | Some _ \<Rightarrow> False)"

definition post_as_extracted :: "py_dict \<Rightarrow> bool" where
  "post_as_extracted post \<longleftrightarrow>
     list_all (holds_text post)
       [''likes'', ''author'', ''author_join_date'', ''author_post_count'', ''id'', ''reply_to_id'',
        ''quoted_content'', ''content'', ''signature''] \<and>
     holds_text_or_none post ''date'' \<and>
     (case post ''page'' of None \<Rightarrow> True | Some (PyInt _) \<Rightarrow> True | Some _ \<Rightarrow> False)"

definition metadata_as_extracted :: "py_dict \<Rightarrow> bool" where
  "metadata_as_extracted metadata \<longleftrightarrow>
     holds_text metadata ''title'' \<and> holds_text metadata ''author'' \<and>
     holds_text_or_none metadata ''date'' \<and> holds_text_or_none metadata ''views'' \<and>
     (case metadata ''categories'' of None \<Rightarrow> True | Some (PyList _) \<Rightarrow> True | Some _ \<Rightarrow> False)"

definition text_at :: "py_dict \<Rightarrow> string \<Rightarrow> ustring \<Rightarrow> ustring" where
  "text_at d k dflt = (case d k of Some (PyStr s) \<Rightarrow> s | _ \<Rightarrow> dflt)"

text \<open>\<open>post.get('page', 1)\<close>\<close>

definition page_of :: "py_dict \<Rightarrow> int" where
  "page_of post = (case post ''page'' of Some (PyInt n) \<Rightarrow> n | _ \<Rightarrow> 1)"

text \<open>
  The lines of a text that are not blank, stripped; an identifier without the prefix
  \<open>post-\<close>; a line of the property drawer for a value that is not empty.
\<close>

definition text_lines :: "ustring \<Rightarrow> ustring list" where
  "text_lines text = filter (\<lambda>line. line \<noteq> []) (map strip (split_on 10 text))"

definition without_post_prefix :: "ustring \<Rightarrow> ustring" where
  "without_post_prefix x = (if prefix (ustr ''post-'') x then remove_term (ustr ''post-'') x else x)"

definition property_line :: "ustring \<Rightarrow> ustring \<Rightarrow> ustring list" where
  "property_line name v = (if v \<noteq> [] then [name @ v] else [])"

text \<open>
  \<open>NinisiteScraper._format_post\<close>: the lines that it appends to \<open>org_content\<close>, or the
  exception that it raises. The only call in it that can raise is \<open>int(likes)\<close>, which
  the source makes when the like count is neither empty nor \<open>0\<close>.
\<close>

definition format_post :: "library \<Rightarrow> py_dict \<Rightarrow> ustring \<Rightarrow> py_error + ustring list" where
  "format_post L post heading_level =
     (if \<not> post_as_extracted post then Inl Unmodelled
      else
        let likes = text_at post ''likes'' (ustr ''0'');
            author = text_at post ''author'' (ustr ''Unknown'')
        in case format_author_name author of
             Inl e \<Rightarrow> Inl e
           | Inr author_formatted \<Rightarrow>
               (let date_formatted =
                      (case post ''date'' of
                         Some PyNone \<Rightarrow> ustr ''jalali:None''
                       | _ \<Rightarrow> parse_date_to_jalali (lib_strptime L) (lib_localize L)
                               (text_at post ''date'' []));
                    (join_date, post_count) =
                      clean_author_info (text_at post ''author_join_date'' [])
                        (text_at post ''author_post_count'' []);
                    author_info =
                      (if join_date \<noteq> [] \<and> post_count \<noteq> []
                       then ustr ''('' @ join_date @ ustr '', '' @ post_count @ ustr '' posts)''
                       else [])
                in case (if likes \<noteq> [] \<and> likes \<noteq> ustr ''0''
                         then (case py_int likes of Inl e \<Rightarrow> Inl e | Inr n \<Rightarrow> Inr (0 < n))
                         else Inr False) of
                     Inl e \<Rightarrow> Inl e
                   | Inr liked \<Rightarrow>
                       (let likes_str = (if liked then ustr ''@likes/'' @ likes @ ustr '' '' else []);
                            heading = heading_level @ ustr '' '' @ likes_str @ author_formatted @
                                      ustr '' '' @ author_info @ ustr '' ['' @ date_formatted @ ustr '']'';
                            reply_to_id = text_at post ''reply_to_id'' [];
                            quoted_content = text_at post ''quoted_content'' [];
                            content = text_at post ''content'' [];
                            signature = text_at post ''signature'' [];
                            signature_level = (if heading_level = ustr ''**'' then ustr ''***'' else ustr ''****'')
                        in Inr
                          ([heading, ustr '':PROPERTIES:''] @
                           (if text_at post ''id'' [] \<noteq> []
                            then [ustr '':CUSTOM_ID: '' @ without_post_prefix (text_at post ''id'' [])]
                            else []) @
                           property_line (ustr '':AUTHOR: '') (text_at post ''author'' []) @
                           property_line (ustr '':DATE: '') (text_at post ''date'' []) @
                           property_line (ustr '':AUTHOR_JOIN_DATE: '') (text_at post ''author_join_date'' []) @
                           property_line (ustr '':AUTHOR_POST_COUNT: '') (text_at post ''author_post_count'' []) @
                           property_line (ustr '':LIKES: '') (text_at post ''likes'' []) @
                           (case post ''page'' of
                              Some (PyInt n) \<Rightarrow> if n \<noteq> 0 then [ustr '':PAGE: '' @ int_str n] else []
                            | _ \<Rightarrow> []) @
                           property_line (ustr '':REPLY_TO_ID: '') reply_to_id @
                           [ustr '':END:''] @
                           (if reply_to_id \<noteq> []
                            then [ustr ''- [[#'' @ without_post_prefix reply_to_id @ ustr ''][In Reply To]]'', []]
                            else []) @
                           (if quoted_content \<noteq> []
                            then [ustr ''#+begin_quote''] @ text_lines quoted_content @ [ustr ''#+end_quote'', []]
                            else []) @
                           (if content \<noteq> [] then text_lines content @ [[]] else []) @
                           (if signature \<noteq> []
                            then [signature_level @ ustr '' Signature:''] @ text_lines signature @ [[]]
                            else [])))))"

text \<open>The loop over posts: the first exception ends it.\<close>

fun format_posts :: "library \<Rightarrow> py_dict list \<Rightarrow> ustring \<Rightarrow> py_error + ustring list" where
  "format_posts L [] heading_level = Inr []"
| "format_posts L (post # posts) heading_level =
     (case format_post L post heading_level of
        Inl e \<Rightarrow> Inl e
      | Inr ls \<Rightarrow>
          (case format_posts L posts heading_level of
             Inl e \<Rightarrow> Inl e
           | Inr rest \<Rightarrow> Inr (ls @ rest)))"

text \<open>The address and the heading of a page, and the loop over the pages in their order.\<close>

definition page_url :: "ustring \<Rightarrow> int \<Rightarrow> ustring" where
  "page_url base_url page_num =
     (if page_num = 1 then base_url
      else if 63 \<in> set base_url then
        (if contains (ustr ''page='') base_url
         then sub_matches match_page_param (ustr ''page='' @ int_str page_num) base_url
         else base_url @ ustr ''&page='' @ int_str page_num)
      else base_url @ ustr ''?page='' @ int_str page_num)"

definition page_heading :: "ustring \<Rightarrow> int \<Rightarrow> ustring" where
  "page_heading base_url page_num =
     ustr ''** [['' @ page_url base_url page_num @ ustr ''][''  @
     (if page_num = 1 then ustr ''1st Page''
      else if page_num = 2 then ustr ''2nd Page''
      else if page_num = 3 then ustr ''3rd Page''
      else int_str page_num @ ustr ''th Page'') @ ustr '']]''"

fun format_pages :: "library \<Rightarrow> py_dict list \<Rightarrow> ustring \<Rightarrow> int list \<Rightarrow> py_error + ustring list" where
  "format_pages L posts base_url [] = Inr []"
| "format_pages L posts base_url (page_num # page_nums) =
     (case format_posts L (filter (\<lambda>post. page_of post = page_num) posts) (ustr ''***'') of
        Inl e \<Rightarrow> Inl e
      | Inr ls \<Rightarrow>
          (case format_pages L posts base_url page_nums of
             Inl e \<Rightarrow> Inl e
           | Inr rest \<Rightarrow> Inr (page_heading base_url page_num # ls @ rest)))"

text \<open>
  \<open>NinisiteScraper.format_org_mode\<close>: the text, or the exception raised while the posts
  are written.
\<close>

definition format_org_mode :: "library \<Rightarrow> py_dict \<Rightarrow> py_dict list \<Rightarrow> ustring \<Rightarrow> bool \<Rightarrow> py_error + ustring" where
  "format_org_mode L metadata posts base_url paginate =
     (if \<not> metadata_as_extracted metadata then Inl Unmodelled
      else
        let title = text_at metadata ''title'' (ustr ''Ninisite Post'');
            unique_authors = length (remdups (map (\<lambda>post. text_at post ''author'' (ustr ''Unknown'')) posts));
            num_pages = (if posts \<noteq> [] then Max (set (map page_of posts)) else 1);
            scrape_time = parse_date_to_jalali (lib_strptime L) (lib_localize L) (lib_now L);
            topic_id = extract_topic_id L base_url;
            header =
              [ustr ''#+TITLE: '' @ title, [], ustr ''* '' @ title, ustr '':PROPERTIES:'',
               ustr '':TOPIC_ID: '' @ topic_id, ustr '':ORIGINAL_URL: '' @ base_url,
               ustr '':SCRAPE_DATE: '' @ scrape_time, ustr '':TOTAL_PAGES: '' @ int_str num_pages,
               ustr '':UNIQUE_AUTHORS: '' @ int_str (int unique_authors)] @
              property_line (ustr '':AUTHOR: '') (text_at metadata ''author'' []) @
              property_line (ustr '':DATE: '') (text_at metadata ''date'' []) @
              property_line (ustr '':VIEWS: '') (text_at metadata ''views'' []) @
              (case metadata ''categories'' of
                 Some (PyList categories) \<Rightarrow>
                   if categories \<noteq> [] then [ustr '':CATEGORIES: '' @ join (ustr '' > '') categories] else []
               | _ \<Rightarrow> []) @
              [ustr '':TOTAL_POSTS: '' @ int_str (int (length posts)), ustr '':END:'', []];
            body =
              (if paginate
               then format_pages L posts base_url (sort (remdups (map page_of posts)))
               else format_posts L posts (ustr ''**''))
        in case body of
             Inl e \<Rightarrow> Inl e
           | Inr ls \<Rightarrow> Inr (join [10] (header @ ls)))"

text \<open>
  \<open>NinisiteScraper.scrape_discussion\<close>, from the list that \<open>get_all_pages\<close> returns.
\<close>

definition scrape_discussion :: "library \<Rightarrow> page list \<Rightarrow> ustring \<Rightarrow> bool \<Rightarrow> py_error + ustring" where
  "scrape_discussion L pages url paginate =
     (if pages = [] then Inl (Exception ''Could not fetch any pages'')
      else let metadata = extract_topic_metadata (pages ! 0);
               posts = extract_posts pages
           in format_org_mode L metadata posts url paginate)"

text \<open>
  Contents and elements to run the functions on: a greeting of six Persian words in 30
  characters, the same without its last letter, a sentence of 40 Latin letters and spaces,
  and elements whose content container holds one of them.
\<close>

definition greeting_30 :: ustring where
  "greeting_30 =
     [0x633, 0x644, 0x627, 0x645, 32, 0x633, 0x644, 0x627, 0x645, 32, 0x633, 0x644, 0x627, 0x645, 32,
      0x633, 0x644, 0x627, 0x645, 32, 0x633, 0x644, 0x627, 0x645, 32, 0x62F, 0x648, 0x633, 0x62A, 0x645]"

definition greeting_29 :: ustring where
  "greeting_29 = butlast greeting_30"

definition latin_40 :: ustring where
  "latin_40 = ustr ''this is a reply written in latin letters''"

definition make_post :: "ustring \<Rightarrow> post_data" where
  "make_post c =
     \<lparr>post_content = c, post_username = [], post_timestamp = [], post_number = [], post_user_info = []\<rparr>"

definition container_elem :: "ustring \<Rightarrow> post_elem" where
  "container_elem c =
     \<lparr>a_username = None, a_user_href = None, div_post_content = Some (None, c),
      span_timestamp = Some [], elem_text = c\<rparr>"

text \<open>
  A string in which every white space character is a space that no white space follows
  directly.
\<close>

fun single_spaced :: "ustring \<Rightarrow> bool" where
  "single_spaced [] = True"
| "single_spaced (c # cs) =
     ((is_space c \<longrightarrow> c = 32 \<and> (case cs of [] \<Rightarrow> True | d # _ \<Rightarrow> \<not> is_space d)) \<and>
      single_spaced cs)"

text \<open>
  Strings to run the cleaning on: a sentence with an escaped space, what the cleaning
  makes of it once and twice; a navigation phrase inside itself; a label with its value
  inside another one; and the greeting with a run of spaces and a separator.
\<close>

definition escaped_input :: ustring where
  "escaped_input = ustr ''first '' @ [92] @ ustr '' second part of the message text''"

definition escaped_once :: ustring where
  "escaped_once = ustr ''first  second part of the message text''"

definition escaped_twice :: ustring where
  "escaped_twice = ustr ''first second part of the message text''"

definition nested_term :: ustring where
  "nested_term = [0x645, 0x62C] @ term_majalle @ [0x644, 0x647]"

definition nested_label :: ustring where
  "nested_label = [0x639, 0x636, 0x648, 0x6CC] @ label_ozviat @ ustr '':1'' @ [0x62A] @ ustr '':2''"

definition messy_greeting :: ustring where
  "messy_greeting =
     [0x633, 0x644, 0x627, 0x645, 32, 32, 32, 0x633, 0x644, 0x627, 0x645, 32, 124, 32,
      0x633, 0x644, 0x627, 0x645, 32, 0x633, 0x644, 0x627, 0x645, 32, 0x633, 0x644, 0x627, 0x645, 32,
      0x62F, 0x648, 0x633, 0x62A, 0x645]"

definition collapsed_greeting :: ustring where
  "collapsed_greeting =
     [0x633, 0x644, 0x627, 0x645, 32, 0x633, 0x644, 0x627, 0x645, 32, 124, 32,
      0x633, 0x644, 0x627, 0x645, 32, 0x633, 0x644, 0x627, 0x645, 32, 0x633, 0x644, 0x627, 0x645, 32,
      0x62F, 0x648, 0x633, 0x62A, 0x645]"

text \<open>A hash to run the loop with: the length of the string.\<close>

definition example_hash :: "ustring \<Rightarrow> int" where
  "example_hash s = int (length s)"

section \<open>Properties of the direction marks\<close>

text \<open>
  C8: a name whose first character lies in one of the four Arabic-script ranges
  (0600-06FF, 0750-077F, FB50-FDFF, FE70-FEFF) is returned between U+2067 and U+2069;
  a name whose first character lies outside all of them is returned unchanged. The
  function is a HOL function of its argument alone, so it has no effect besides its result.
\<close>

theorem format_author_name_wraps:
  "((0x0600 \<le> c \<and> c \<le> 0x06FF) \<or> (0x0750 \<le> c \<and> c \<le> 0x077F) \<or>
    (0xFB50 \<le> c \<and> c \<le> 0xFDFF) \<or> (0xFE70 \<le> c \<and> c \<le> 0xFEFF)
      \<longrightarrow> format_author_name (c # cs) = Inr (0x2067 # c # cs @ [0x2069])) \<and>
   (\<not> ((0x0600 \<le> c \<and> c \<le> 0x06FF) \<or> (0x0750 \<le> c \<and> c \<le> 0x077F) \<or>
       (0xFB50 \<le> c \<and> c \<le> 0xFDFF) \<or> (0xFE70 \<le> c \<and> c \<le> 0xFEFF))
      \<longrightarrow> format_author_name (c # cs) = Inr (c # cs))"
  by (simp add: format_author_name_def first_char_def is_persian_def)

theorem format_author_name_wraps_witness:
  "format_author_name [0x0633, 0x0627, 0x0631, 0x0627] =
     Inr [0x2067, 0x0633, 0x0627, 0x0631, 0x0627, 0x2069] \<and>
   format_author_name [0x41, 0x6C, 0x69] = Inr [0x41, 0x6C, 0x69]"
  using format_author_name_wraps [of "0x0633" "[0x0627, 0x0631, 0x0627]"]
    format_author_name_wraps [of "0x41" "[0x6C, 0x69]"]
  by simp

text \<open>
  C10: the empty name is returned unchanged, and for no name at all does the read of the
  first character fail: the function always returns a string, never \<open>IndexError\<close>.
\<close>

theorem format_author_name_total:
  "format_author_name [] = Inr [] \<and> (\<exists>r. format_author_name author = Inr r)"
  by (cases author) (simp_all add: format_author_name_def first_char_def)

section \<open>Properties of the date conversion\<close>

lemmas parse_defs = strptime_library_def format_matches_def group_m_def group_d_def group_Y_def
  group_M_def group_S_def group_p_def spaces1_def lit_def in_range_def digit_value_def
  is_space_def days_in_month_def ustr_def decimal_digit_def decimal_digit_ranges_def
  decimal_value_def




text \<open>
  C6: when the timestamp does not parse (the library call raises), the conversion returns
  the marker \<open>jalali:\<close> followed by the timestamp as it was given. The conversion is a
  total function into strings: no exception leaves it, and whatever the library calls do,
  its result starts with the marker.
\<close>

theorem parse_date_to_jalali_fallback:
  "(strptime date_str = Inl e \<longrightarrow>
      parse_date_to_jalali strptime localize date_str = ustr ''jalali:'' @ date_str) \<and>
   (\<exists>rest. parse_date_to_jalali strptime localize date_str = ustr ''jalali:'' @ rest)"
  by (simp add: parse_date_to_jalali_def Let_def split: sum.split)

theorem parse_date_to_jalali_fallback_witness:
  "strptime_library (ustr ''garbage'') = Inl ValueError \<and>
   parse_date_to_jalali strptime_library localize_tehran (ustr ''garbage'') = ustr ''jalali:garbage''"
proof -
  have a: "strptime_library (ustr ''garbage'') = Inl ValueError"
    by (simp add: parse_defs)
  have b: "ustr ''jalali:'' @ ustr ''garbage'' = ustr ''jalali:garbage''"
    by (simp add: ustr_def)
  from parse_date_to_jalali_fallback [of strptime_library "ustr ''garbage''" ValueError localize_tehran] a b
  show ?thesis by simp
qed




section \<open>Properties of the removal of duplicates\<close>

lemma unique_loop_unseen:
  "snd (unique_loop h ps (seen, acc)) = acc @ unseen h seen ps"
  by (induction ps arbitrary: seen acc) (simp_all add: fingerprint_def Let_def)

lemma unseen_subseq: "subseq (unseen h seen ps) ps"
  by (induction ps arbitrary: seen) (auto intro: list_emb_Cons)

lemma unseen_set: "fingerprint h ` set (unseen h seen ps) = fingerprint h ` set ps - seen"
  by (induction ps arbitrary: seen) auto

lemma unseen_distinct: "distinct (map (fingerprint h) (unseen h seen ps))"
proof (induction ps arbitrary: seen)
  case Nil
  show ?case by simp
next
  case (Cons p ps)
  have "fingerprint h p \<notin> fingerprint h ` set (unseen h (insert (fingerprint h p) seen) ps)"
    by (simp add: unseen_set)
  with Cons show ?case by simp
qed

lemma unseen_index:
  "unseen h seen ps =
     map (nth ps) (filter (\<lambda>i. fingerprint h (ps ! i) \<notin> seen \<and>
                              (\<forall>j<i. fingerprint h (ps ! j) \<noteq> fingerprint h (ps ! i)))
                    [0..<length ps])"
proof (induction ps arbitrary: seen)
  case Nil
  show ?case by simp
next
  case (Cons p ps)
  have upt: "[0..<length (p # ps)] = 0 # map Suc [0..<length ps]"
    by (simp add: upt_conv_Cons map_Suc_upt del: upt_Suc)
  show ?case
  proof (cases "fingerprint h p \<in> seen")
    case True
    then have "\<And>i. (fingerprint h (ps ! i) \<notin> seen \<and> fingerprint h p \<noteq> fingerprint h (ps ! i) \<and>
               (\<forall>j<i. fingerprint h (ps ! j) \<noteq> fingerprint h (ps ! i)))
             = (fingerprint h (ps ! i) \<notin> seen \<and>
               (\<forall>j<i. fingerprint h (ps ! j) \<noteq> fingerprint h (ps ! i)))"
      by auto
    with True show ?thesis
      unfolding upt by (simp add: Cons.IH filter_map comp_def All_less_Suc2)
  next
    case False
    have "\<And>i. (fingerprint h (ps ! i) \<notin> seen \<and> fingerprint h p \<noteq> fingerprint h (ps ! i) \<and>
               (\<forall>j<i. fingerprint h (ps ! j) \<noteq> fingerprint h (ps ! i)))
             = (fingerprint h (ps ! i) \<notin> insert (fingerprint h p) seen \<and>
               (\<forall>j<i. fingerprint h (ps ! j) \<noteq> fingerprint h (ps ! i)))"
      by auto
    with False show ?thesis
      unfolding upt by (simp add: Cons.IH filter_map comp_def All_less_Suc2)
  qed
qed

lemma same_prefix_apart:
  assumes "distinct (map (fingerprint h) out)" "a < b" "b < length out"
  shows "take 100 (post_content (out ! a)) \<noteq> take 100 (post_content (out ! b))"
proof
  assume "take 100 (post_content (out ! a)) = take 100 (post_content (out ! b))"
  then have "map (fingerprint h) out ! a = map (fingerprint h) out ! b"
    using assms by (simp add: fingerprint_def)
  with assms show False
    by (simp add: distinct_conv_nth)
qed

text \<open>
  C2: the posts kept are exactly the posts whose fingerprint (the hash of the first 100
  characters of the content) is carried by no earlier post of the input, in the order of
  the input: the result is a subsequence of the input, no two kept posts have the same
  fingerprint, and so no two kept posts start with the same 100 characters, whatever
  follows these in their contents.
\<close>

theorem unique_posts_first_occurrences:
  "unique_posts hash all_posts =
     map (nth all_posts)
       (filter (\<lambda>i. \<forall>j<i. fingerprint hash (all_posts ! j) \<noteq> fingerprint hash (all_posts ! i))
          [0..<length all_posts]) \<and>
   subseq (unique_posts hash all_posts) all_posts \<and>
   distinct (map (fingerprint hash) (unique_posts hash all_posts)) \<and>
   (\<forall>a b. a < b \<and> b < length (unique_posts hash all_posts) \<longrightarrow>
      take 100 (post_content (unique_posts hash all_posts ! a)) \<noteq>
      take 100 (post_content (unique_posts hash all_posts ! b)))"
proof -
  have eq: "unique_posts hash all_posts = unseen hash {} all_posts"
    using unique_loop_unseen [of hash all_posts "{}" "[]"] by (simp add: unique_posts_def)
  have d: "distinct (map (fingerprint hash) (unique_posts hash all_posts))"
    by (simp add: eq unseen_distinct)
  have i: "unique_posts hash all_posts =
     map (nth all_posts)
       (filter (\<lambda>i. \<forall>j<i. fingerprint hash (all_posts ! j) \<noteq> fingerprint hash (all_posts ! i))
          [0..<length all_posts])"
    using unseen_index [of hash "{}" all_posts] by (simp add: eq)
  have s: "subseq (unique_posts hash all_posts) all_posts"
    by (simp add: eq unseen_subseq)
  have p: "\<forall>a b. a < b \<and> b < length (unique_posts hash all_posts) \<longrightarrow>
      take 100 (post_content (unique_posts hash all_posts ! a)) \<noteq>
      take 100 (post_content (unique_posts hash all_posts ! b))"
    using same_prefix_apart [OF d] by blast
  from i s d p show ?thesis by blast
qed

theorem unique_posts_first_occurrences_witness:
  "unique_posts example_hash
     [\<lparr>post_content = replicate 100 97 @ [98], post_username = [], post_timestamp = [], post_number = [], post_user_info = []\<rparr>,
      \<lparr>post_content = ustr ''other'', post_username = [], post_timestamp = [], post_number = [], post_user_info = []\<rparr>,
      \<lparr>post_content = replicate 100 97 @ [99], post_username = [], post_timestamp = [], post_number = [], post_user_info = []\<rparr>] =
     [\<lparr>post_content = replicate 100 97 @ [98], post_username = [], post_timestamp = [], post_number = [], post_user_info = []\<rparr>,
      \<lparr>post_content = ustr ''other'', post_username = [], post_timestamp = [], post_number = [], post_user_info = []\<rparr>]"
proof -
  have u: "[0..<3] = [0, Suc 0, Suc (Suc 0)]"
    by (simp add: upt_rec)
  show ?thesis
    using unique_posts_first_occurrences [of example_hash
      "[\<lparr>post_content = replicate 100 97 @ [98], post_username = [], post_timestamp = [], post_number = [], post_user_info = []\<rparr>,
        \<lparr>post_content = ustr ''other'', post_username = [], post_timestamp = [], post_number = [], post_user_info = []\<rparr>,
        \<lparr>post_content = replicate 100 97 @ [99], post_username = [], post_timestamp = [], post_number = [], post_user_info = []\<rparr>]"]
    by (simp add: u fingerprint_def example_hash_def ustr_def All_less_Suc)
qed

section \<open>Properties of the extraction of posts\<close>

lemma set_id_apply:
  "set_id a post k = (if k = ''id'' \<and> art_id a \<noteq> None \<and> art_id a \<noteq> Some [] then map_option PyStr (art_id a) else post k)"
  by (simp add: set_id_def split: option.splits)

lemma set_author_apply:
  "set_author a post k = (if k = ''author'' \<and> span_name a \<noteq> None then map_option (\<lambda>t. PyStr (strip t)) (span_name a) else post k)"
  by (simp add: set_author_def split: option.splits)

lemma set_author_profile_apply:
  "set_author_profile a post k = (if k = ''author_profile'' \<and> a_url a \<noteq> None then map_option attr_value (a_url a) else post k)"
  by (simp add: set_author_profile_def split: option.splits)

lemma set_author_join_date_apply:
  "set_author_join_date a post k = (if k = ''author_join_date'' \<and> reg_date a \<noteq> None then map_option (\<lambda>t. PyStr (strip t)) (reg_date a) else post k)"
  by (simp add: set_author_join_date_def split: option.splits)

lemma set_author_post_count_apply:
  "set_author_post_count a post k = (if k = ''author_post_count'' \<and> post_count a \<noteq> None then map_option (\<lambda>t. PyStr (strip t)) (post_count a) else post k)"
  by (simp add: set_author_post_count_def split: option.splits)

lemma set_date_apply:
  "set_date a post k = (if k = ''date'' \<and> meta_datepublished a \<noteq> None then map_option attr_value (meta_datepublished a) else post k)"
  by (simp add: set_date_def split: option.splits)

lemma set_content_other:
  "k \<noteq> ''content'' \<Longrightarrow> k \<noteq> ''content_html'' \<Longrightarrow> set_content a post k = post k"
  by (simp add: set_content_def split: option.splits prod.splits)

lemma set_content_absent: "post_message a = None \<Longrightarrow> set_content a post = post"
  by (simp add: set_content_def)

lemma set_quote_other:
  "k \<noteq> ''quoted_content'' \<Longrightarrow> k \<noteq> ''reply_to_id'' \<Longrightarrow> set_quote a post k = post k"
  by (simp add: set_quote_def Let_def split: option.splits prod.splits)

lemma set_quote_absent: "quotation a = None \<Longrightarrow> set_quote a post = post"
  by (simp add: set_quote_def)

lemma set_likes_other: "k \<noteq> ''likes'' \<Longrightarrow> set_likes a post k = post k"
  by (simp add: set_likes_def split: option.splits)

lemma set_likes_absent: "like_count a = None \<Longrightarrow> set_likes a post = post"
  by (simp add: set_likes_def)

lemma set_signature_apply:
  "set_signature a post k = (if k = ''signature'' \<and> signature a \<noteq> None then map_option (\<lambda>t. PyStr (strip t)) (signature a) else post k)"
  by (simp add: set_signature_def split: option.splits)

lemmas set_applies = set_id_apply set_author_apply set_author_profile_apply set_author_join_date_apply
  set_author_post_count_apply set_date_apply set_content_other set_content_absent set_quote_other set_quote_absent
  set_likes_other set_likes_absent set_signature_apply

lemma extract_post_data_Some:
  "extract_post_data a m = Some p \<Longrightarrow>
     p = (set_signature a (set_likes a (set_quote a (set_content a (set_date a (set_author_post_count a
           (set_author_join_date a (set_author_profile a (set_author a (set_id a Map.empty))))))))))
          (''is_main_topic'' \<mapsto> PyBool m)"
  by (simp add: extract_post_data_def Let_def split: if_splits)

lemma absent_fields:
  assumes "extract_post_data a m = Some p"
  shows "(art_id a = None \<longrightarrow> p ''id'' = None) \<and>
     (span_name a = None \<longrightarrow> p ''author'' = None) \<and>
     (a_url a = None \<longrightarrow> p ''author_profile'' = None) \<and>
     (reg_date a = None \<longrightarrow> p ''author_join_date'' = None) \<and>
     (post_count a = None \<longrightarrow> p ''author_post_count'' = None) \<and>
     (meta_datepublished a = None \<longrightarrow> p ''date'' = None) \<and>
     (post_message a = None \<longrightarrow> p ''content'' = None \<and> p ''content_html'' = None) \<and>
     (quotation a = None \<longrightarrow> p ''quoted_content'' = None \<and> p ''reply_to_id'' = None) \<and>
     (like_count a = None \<longrightarrow> p ''likes'' = None) \<and>
     (signature a = None \<longrightarrow> p ''signature'' = None)"
proof -
  note p = extract_post_data_Some [OF assms]
  have 1: "art_id a = None \<longrightarrow> p ''id'' = None" by (simp add: p set_applies)
  have 2: "span_name a = None \<longrightarrow> p ''author'' = None" by (simp add: p set_applies)
  have 3: "a_url a = None \<longrightarrow> p ''author_profile'' = None" by (simp add: p set_applies)
  have 4: "reg_date a = None \<longrightarrow> p ''author_join_date'' = None" by (simp add: p set_applies)
  have 5: "post_count a = None \<longrightarrow> p ''author_post_count'' = None" by (simp add: p set_applies)
  have 6: "meta_datepublished a = None \<longrightarrow> p ''date'' = None" by (simp add: p set_applies)
  have 7: "post_message a = None \<longrightarrow> p ''content'' = None \<and> p ''content_html'' = None" by (simp add: p set_applies)
  have 8: "quotation a = None \<longrightarrow> p ''quoted_content'' = None \<and> p ''reply_to_id'' = None" by (simp add: p set_applies)
  have 9: "like_count a = None \<longrightarrow> p ''likes'' = None" by (simp add: p set_applies)
  have 10: "signature a = None \<longrightarrow> p ''signature'' = None" by (simp add: p set_applies)
  from 1 2 3 4 5 6 7 8 9 10 show ?thesis by blast
qed

lemma extract_post_data_flag:
  "extract_post_data a m = Some p \<Longrightarrow> p ''is_main_topic'' = Some (PyBool m)"
  by (auto simp: extract_post_data_def Let_def split: if_splits)

lemma extract_post_data_main: "\<exists>p. extract_post_data a True = Some p"
  by (simp add: extract_post_data_def Let_def get_truthy_def)

lemma is_main_topic_page [simp]: "is_main_topic (p(''page'' \<mapsto> v)) = is_main_topic p"
  by (simp add: is_main_topic_def)

lemma reply_loop_appends:
  "\<exists>new. reply_loop n arts acc = acc @ new \<and> (\<forall>q\<in>set new. \<not> is_main_topic q)"
proof (induction arts arbitrary: acc)
  case Nil
  show ?case by simp
next
  case (Cons a arts)
  show ?case
  proof (cases "ustr ''forum-native-ad'' \<in> set (art_class a)")
    case True
    with Cons [of acc] show ?thesis by simp
  next
    case False
    show ?thesis
    proof (cases "extract_post_data a False")
      case None
      with False Cons [of acc] show ?thesis by simp
    next
      case (Some p)
      from extract_post_data_flag [OF Some] have np: "\<not> is_main_topic p"
        by (simp add: is_main_topic_def)
      from Cons [of "acc @ [p(''page'' \<mapsto> PyInt n)]"] obtain new where
        "reply_loop n arts (acc @ [p(''page'' \<mapsto> PyInt n)]) = (acc @ [p(''page'' \<mapsto> PyInt n)]) @ new"
        "\<forall>q\<in>set new. \<not> is_main_topic q" by blast
      with False Some np show ?thesis by simp
    qed
  qed
qed

lemma page_loop_appends:
  "n \<noteq> 1 \<Longrightarrow> 0 < n \<Longrightarrow> \<exists>new. page_loop n pages acc = acc @ new \<and> (\<forall>q\<in>set new. \<not> is_main_topic q)"
proof (induction pages arbitrary: n acc)
  case Nil
  show ?case by simp
next
  case (Cons pg pages)
  obtain new1 where 1: "reply_loop n (find_replies pg) acc = acc @ new1" "\<forall>q\<in>set new1. \<not> is_main_topic q"
    using reply_loop_appends by blast
  from Cons.prems have "n + 1 \<noteq> 1" "0 < n + 1" by simp_all
  from Cons.IH [OF this, of "acc @ new1"] obtain new2 where
    2: "page_loop (n + 1) pages (acc @ new1) = (acc @ new1) @ new2" "\<forall>q\<in>set new2. \<not> is_main_topic q"
    by blast
  from Cons.prems 1 2 show ?case by auto
qed

text \<open>
  C1 (as amended): the thread has a main-topic post exactly when the first page has an
  article with the id \<open>topic\<close>. Then the posts start with that post and no other
  post is flagged; otherwise no post is flagged, even though the thread was built from
  at least one page.
\<close>

theorem extract_posts_main_topic:
  "(find_topic pg \<noteq> None \<longrightarrow>
      (\<exists>p ps. extract_posts (pg # pages) = p # ps \<and> is_main_topic p \<and> (\<forall>q\<in>set ps. \<not> is_main_topic q))) \<and>
   (find_topic pg = None \<longrightarrow> (\<forall>q\<in>set (extract_posts (pg # pages)). \<not> is_main_topic q))"
proof (intro conjI impI)
  assume "find_topic pg \<noteq> None"
  then obtain a where a: "find_topic pg = Some a" by auto
  obtain p where p: "extract_post_data a True = Some p"
    using extract_post_data_main by blast
  from extract_post_data_flag [OF p] have mp: "is_main_topic (p(''page'' \<mapsto> PyInt 1))"
    by (simp add: is_main_topic_def)
  obtain new1 where 1: "reply_loop 1 (find_replies pg) [p(''page'' \<mapsto> PyInt 1)] = [p(''page'' \<mapsto> PyInt 1)] @ new1"
      "\<forall>q\<in>set new1. \<not> is_main_topic q"
    using reply_loop_appends by blast
  obtain new2 where 2: "page_loop 2 pages ([p(''page'' \<mapsto> PyInt 1)] @ new1) = ([p(''page'' \<mapsto> PyInt 1)] @ new1) @ new2"
      "\<forall>q\<in>set new2. \<not> is_main_topic q"
    using page_loop_appends [of 2] by fastforce
  have "extract_posts (pg # pages) = (p(''page'' \<mapsto> PyInt 1)) # (new1 @ new2)"
    using a p 1 2 by (simp add: extract_posts_def)
  with mp 1 2 show "\<exists>p ps. extract_posts (pg # pages) = p # ps \<and> is_main_topic p \<and> (\<forall>q\<in>set ps. \<not> is_main_topic q)"
    by auto
next
  assume a: "find_topic pg = None"
  obtain new1 where 1: "reply_loop 1 (find_replies pg) [] = [] @ new1"
      "\<forall>q\<in>set new1. \<not> is_main_topic q"
    using reply_loop_appends by blast
  obtain new2 where 2: "page_loop 2 pages new1 = new1 @ new2"
      "\<forall>q\<in>set new2. \<not> is_main_topic q"
    using page_loop_appends [of 2] by fastforce
  have "extract_posts (pg # pages) = new1 @ new2"
    using a 1 2 by (simp add: extract_posts_def)
  with 1 2 show "\<forall>q\<in>set (extract_posts (pg # pages)). \<not> is_main_topic q"
    by auto
qed

lemmas example_defs = reply_only_page_def topic_page_def reply_article_def empty_article_def
  extract_posts_def extract_post_data_def get_truthy_def strip_def is_space_def ustr_def Let_def
  is_main_topic_def set_id_def set_author_def set_author_profile_def set_author_join_date_def
  set_author_post_count_def set_date_def set_content_def set_quote_def set_likes_def
  set_signature_def

text \<open>
  C1 as stated fails on a thread of one page that has a reply and no article with the id
  \<open>topic\<close>: none of its posts is flagged as the main topic.
\<close>

theorem extract_posts_main_topic_counterexample:
  "length (filter is_main_topic (extract_posts [reply_only_page])) \<noteq> 1"
  by (simp add: example_defs)

theorem extract_posts_main_topic_witness:
  "is_main_topic (hd (extract_posts [topic_page, reply_only_page])) \<and>
   length (filter is_main_topic (extract_posts [topic_page, reply_only_page])) = 1 \<and>
   filter is_main_topic (extract_posts [reply_only_page]) = []"
proof -
  have t: "find_topic topic_page \<noteq> None" and r: "find_topic reply_only_page = None"
    by (simp_all add: topic_page_def reply_only_page_def)
  from extract_posts_main_topic [of topic_page "[reply_only_page]"] t
  obtain p ps where "extract_posts [topic_page, reply_only_page] = p # ps" "is_main_topic p"
    "\<forall>q\<in>set ps. \<not> is_main_topic q" by blast
  moreover from extract_posts_main_topic [of reply_only_page "[]"] r
  have "\<forall>q\<in>set (extract_posts [reply_only_page]). \<not> is_main_topic q" by blast
  ultimately show ?thesis by (simp add: filter_empty_conv)
qed

text \<open>
  A page whose reply has the like count \<open>abc\<close>: the post extracted, and what the
  writer makes of it.
\<close>

lemma liked_posts:
  "extract_posts [liked_page] =
     [[''id'' \<mapsto> PyStr (ustr ''post-1''), ''content'' \<mapsto> PyStr (ustr ''hello''),
       ''content_html'' \<mapsto> PyStr (ustr ''<div class=\"post-message\"> hello </div>''),
       ''likes'' \<mapsto> PyStr (ustr ''abc''), ''is_main_topic'' \<mapsto> PyBool False,
       ''page'' \<mapsto> PyInt 1]]"
  by (simp add: liked_page_def liked_article_def example_defs)

lemma py_int_abc: "py_int (ustr ''abc'') = Inl ValueError"
  by (simp add: py_int_def int_digits_ok_def decimal_digit_def decimal_digit_ranges_def
      strip_def is_space_def ustr_def Let_def)

lemma format_author_name_Inr: "\<exists>r. format_author_name author = Inr r"
  by (cases author) (simp_all add: format_author_name_def first_char_def)

lemma format_post_bad_likes:
  assumes "post_as_extracted post" and "post ''likes'' = Some (PyStr likes)"
    and "likes \<noteq> []" and "likes \<noteq> ustr ''0''" and "py_int likes = Inl e"
  shows "format_post L post heading_level = Inl e"
proof -
  obtain author_formatted where "format_author_name (text_at post ''author'' (ustr ''Unknown'')) = Inr author_formatted"
    using format_author_name_Inr by blast
  with assms show ?thesis
    by (simp add: format_post_def text_at_def Let_def split: prod.splits)
qed

lemma format_liked_post:
  "format_post L
     [''id'' \<mapsto> PyStr (ustr ''post-1''), ''content'' \<mapsto> PyStr (ustr ''hello''),
      ''content_html'' \<mapsto> PyStr (ustr ''<div class=\"post-message\"> hello </div>''),
      ''likes'' \<mapsto> PyStr (ustr ''abc''), ''is_main_topic'' \<mapsto> PyBool False,
      ''page'' \<mapsto> PyInt 1] heading_level = Inl ValueError"
proof (rule format_post_bad_likes)
  show "py_int (ustr ''abc'') = Inl ValueError" by (rule py_int_abc)
qed (simp_all add: post_as_extracted_def holds_text_def holds_text_or_none_def ustr_def)

lemma metadata_liked_page: "metadata_as_extracted (extract_topic_metadata liked_page)"
  by (simp add: extract_topic_metadata_def liked_page_def metadata_as_extracted_def holds_text_def
      holds_text_or_none_def Let_def)

lemma metadata_reply_only_page: "metadata_as_extracted (extract_topic_metadata reply_only_page)"
  by (simp add: extract_topic_metadata_def reply_only_page_def metadata_as_extracted_def
      holds_text_def holds_text_or_none_def Let_def)

lemma reply_posts:
  "extract_posts [reply_only_page] =
     [[''id'' \<mapsto> PyStr (ustr ''post-1''), ''content'' \<mapsto> PyStr (ustr ''hello''),
       ''content_html'' \<mapsto> PyStr (ustr ''<div class=\"post-message\"> hello </div>''),
       ''is_main_topic'' \<mapsto> PyBool False, ''page'' \<mapsto> PyInt 1]]"
  by (simp add: example_defs)

lemma format_reply_post:
  "\<exists>ls. format_post L
     [''id'' \<mapsto> PyStr (ustr ''post-1''), ''content'' \<mapsto> PyStr (ustr ''hello''),
      ''content_html'' \<mapsto> PyStr (ustr ''<div class=\"post-message\"> hello </div>''),
      ''is_main_topic'' \<mapsto> PyBool False, ''page'' \<mapsto> PyInt 1] heading_level = Inr ls"
  by (simp add: format_post_def post_as_extracted_def holds_text_def holds_text_or_none_def
      text_at_def format_author_name_def first_char_def is_persian_def ustr_def Let_def
      split: prod.splits)

text \<open>
  C9: from an empty list of pages \<open>scrape_discussion\<close> raises its exception (the text
  of the source is \<open>Could not fetch any pages\<close>) and returns nothing; from a page with
  an ordinary reply it returns a text. But it is not the only failure: from a page whose
  reply has the like count \<open>abc\<close>, \<open>int(likes)\<close> raises \<open>ValueError\<close> while the
  post is written, and \<open>scrape_discussion\<close> raises it to its caller, whatever the
  address, the way of paging and the libraries are.
\<close>

theorem scrape_discussion_failures:
  "scrape_discussion L [] url paginate = Inl (Exception ''Could not fetch any pages'') \<and>
   (\<exists>text. scrape_discussion L [reply_only_page] url paginate = Inr text) \<and>
   scrape_discussion L [liked_page] url paginate = Inl ValueError"
proof -
  have 1: "scrape_discussion L [] url paginate = Inl (Exception ''Could not fetch any pages'')"
    by (simp add: scrape_discussion_def)
  have 2: "\<exists>text. scrape_discussion L [reply_only_page] url paginate = Inr text"
  proof (cases paginate)
    case True
    obtain ls where "format_post L
     [''id'' \<mapsto> PyStr (ustr ''post-1''), ''content'' \<mapsto> PyStr (ustr ''hello''),
      ''content_html'' \<mapsto> PyStr (ustr ''<div class=\"post-message\"> hello </div>''),
      ''is_main_topic'' \<mapsto> PyBool False, ''page'' \<mapsto> PyInt 1] (ustr ''***'') = Inr ls"
      using format_reply_post by blast
    with True show ?thesis
      by (simp add: scrape_discussion_def format_org_mode_def metadata_reply_only_page reply_posts
          page_of_def Let_def)
  next
    case False
    obtain ls where "format_post L
     [''id'' \<mapsto> PyStr (ustr ''post-1''), ''content'' \<mapsto> PyStr (ustr ''hello''),
      ''content_html'' \<mapsto> PyStr (ustr ''<div class=\"post-message\"> hello </div>''),
      ''is_main_topic'' \<mapsto> PyBool False, ''page'' \<mapsto> PyInt 1] (ustr ''**'') = Inr ls"
      using format_reply_post by blast
    with False show ?thesis
      by (simp add: scrape_discussion_def format_org_mode_def metadata_reply_only_page reply_posts
          Let_def)
  qed
  have 3: "scrape_discussion L [liked_page] url paginate = Inl ValueError"
    by (cases paginate)
      (simp_all add: scrape_discussion_def format_org_mode_def metadata_liked_page liked_posts
        format_liked_post page_of_def Let_def)
  from 1 2 3 show ?thesis by blast
qed

section \<open>Properties of the validation\<close>

lemmas run_defs = ustr_def strip_def is_space_def is_punct_def after_prefix_def digits_n_def
  match_date_def match_spaces_def match_backslashes_def match_punct_def match_label_value_def
  match_label_def term_tabadol_nazar_def term_sabt_nam_def term_majalle_def term_forushgah_def
  term_bardari_def term_moshaverin_def term_kanun_def term_daste_bandi_def label_tedad_post_def
  label_ozviat_def label_emtiaz_def word_modir_def word_starter_def collapse_whitespace_def
  strip_escapes_def strip_punctuation_def remove_labels_def nav_terms_def remove_term_def
  remove_nav_terms_def is_date_line_def remove_date_line_def reject_short_def clean_content_def
  at_end_def metadata_patterns_def matches_metadata_def nav_ratio_def has_persian_def
  word_count_def decimal_digit_def decimal_digit_ranges_def Let_def

text \<open>
  C5: a candidate whose content has exactly 29 characters is rejected. A candidate whose
  content has exactly 30 characters, one of them at least in the Persian range 0600-06FF,
  is accepted when the content has between 5 and 200 words, matches none of the metadata
  patterns and contains at most 2 of the navigation phrases.
\<close>

theorem is_valid_post_boundary:
  "(length (post_content post) = 29 \<longrightarrow> \<not> is_valid_post dig (Some post)) \<and>
   (length (post_content post) = 30 \<and>
    (\<exists>c\<in>set (post_content post). 0x0600 \<le> c \<and> c \<le> 0x06FF) \<and>
    5 \<le> word_count (post_content post) \<and> word_count (post_content post) \<le> 200 \<and>
    \<not> matches_metadata dig (post_content post) \<and>
    nav_ratio (post_content post) \<le> 2
      \<longrightarrow> is_valid_post dig (Some post))"
  by (auto simp: is_valid_post_def has_persian_def list_ex_iff)

theorem is_valid_post_boundary_witness:
  "\<not> is_valid_post decimal_digit (Some (make_post greeting_29)) \<and>
   is_valid_post decimal_digit (Some (make_post greeting_30))"
proof -
  have l29: "length (post_content (make_post greeting_29)) = 29"
    by (simp add: make_post_def greeting_29_def greeting_30_def)
  have l30: "length (post_content (make_post greeting_30)) = 30"
    by (simp add: make_post_def greeting_30_def)
  have p: "\<exists>c\<in>set (post_content (make_post greeting_30)). 0x0600 \<le> c \<and> c \<le> 0x06FF"
    by (simp add: make_post_def greeting_30_def)
  have w: "word_count (post_content (make_post greeting_30)) = 6"
    by (simp add: make_post_def greeting_30_def word_count_def is_space_def)
  have m: "\<not> matches_metadata decimal_digit (post_content (make_post greeting_30))"
    by (simp add: make_post_def greeting_30_def run_defs)
  have n: "nav_ratio (post_content (make_post greeting_30)) = 0"
    by (simp add: make_post_def greeting_30_def run_defs)
  from is_valid_post_boundary [of "make_post greeting_29" decimal_digit]
    is_valid_post_boundary [of "make_post greeting_30" decimal_digit] l29 l30 p w m n
  show ?thesis by simp
qed

section \<open>The checks of content in the two scrapers\<close>

lemma clean_content_length: "clean_content dig s = [] \<or> 30 \<le> length (clean_content dig s)"
  by (simp add: clean_content_def reject_short_def Let_def)

lemma extract_post_data_v2_content:
  "extract_post_data_v2 dig elem = Some post \<Longrightarrow>
     \<exists>s. post_content post = clean_content dig s \<and> clean_content dig s \<noteq> []"
  by (auto simp: extract_post_data_v2_def Let_def split: if_splits)

lemma extract_post_data_content:
  assumes "post_message article = Some (text, markup)" and "strip text \<noteq> []"
  shows "\<exists>p. extract_post_data article is_main = Some p \<and> p ''content'' = Some (PyStr (strip text))"
proof -
  let ?p = "(set_signature article (set_likes article (set_quote article (set_content article
      (set_date article (set_author_post_count article (set_author_join_date article
      (set_author_profile article (set_author article (set_id article Map.empty))))))))))
      (''is_main_topic'' \<mapsto> PyBool is_main)"
  have c: "set_content article post ''content'' = Some (PyStr (strip text))" for post
    using assms by (simp add: set_content_def)
  have "?p ''content'' = Some (PyStr (strip text))"
    by (simp add: set_signature_apply set_likes_other set_quote_other c)
  moreover from this assms have "extract_post_data article is_main = Some ?p"
    by (simp add: extract_post_data_def Let_def get_truthy_def)
  ultimately show ?thesis by blast
qed

text \<open>Running the cleaning rule by rule, and the extraction from a content container.\<close>

lemma clean_content_steps:
  assumes "s \<noteq> []" and "collapse_whitespace s = s1" and "strip_escapes s1 = s2"
    and "strip_punctuation s2 = s3" and "remove_labels dig s3 = s4" and "remove_nav_terms s4 = s5"
    and "remove_date_line dig s5 = s6" and "reject_short s6 = s7"
  shows "clean_content dig s = s7"
  using assms by (simp add: clean_content_def)

lemma extract_container:
  "clean_content dig (strip c) = r \<Longrightarrow>
     extract_post_data_v2 dig (container_elem c) = (if r \<noteq> [] then Some (make_post r) else None)"
  by (simp add: extract_post_data_v2_def container_elem_def make_post_def Let_def strip_def)

lemma clean_latin_40: "clean_content decimal_digit (strip latin_40) = latin_40"
proof -
  have 0: "strip latin_40 = latin_40" "latin_40 \<noteq> []"
    by (simp_all add: latin_40_def run_defs)
  have 1: "collapse_whitespace latin_40 = latin_40"
    by (simp add: latin_40_def run_defs)
  have 2: "strip_escapes latin_40 = latin_40"
    by (simp add: latin_40_def run_defs)
  have 3: "strip_punctuation latin_40 = latin_40"
    by (simp add: latin_40_def run_defs)
  have 4: "remove_labels decimal_digit latin_40 = latin_40"
    by (simp add: latin_40_def run_defs)
  have 5: "remove_nav_terms latin_40 = latin_40"
    by (simp add: latin_40_def run_defs)
  have 6: "remove_date_line decimal_digit latin_40 = latin_40"
    by (simp add: latin_40_def run_defs)
  have 7: "reject_short latin_40 = latin_40"
    by (simp add: latin_40_def run_defs)
  from clean_content_steps [OF 0(2) 1 2 3 4 5 6 7] 0(1) show ?thesis by simp
qed

lemma clean_greeting_30: "clean_content decimal_digit (strip greeting_30) = greeting_30"
proof -
  have 0: "strip greeting_30 = greeting_30" "greeting_30 \<noteq> []"
    by (simp_all add: greeting_30_def run_defs)
  have 1: "collapse_whitespace greeting_30 = greeting_30"
    by (simp add: greeting_30_def run_defs)
  have 2: "strip_escapes greeting_30 = greeting_30"
    by (simp add: greeting_30_def run_defs)
  have 3: "strip_punctuation greeting_30 = greeting_30"
    by (simp add: greeting_30_def run_defs)
  have 4: "remove_labels decimal_digit greeting_30 = greeting_30"
    by (simp add: greeting_30_def run_defs)
  have 5: "remove_nav_terms greeting_30 = greeting_30"
    by (simp add: greeting_30_def run_defs)
  have 6: "remove_date_line decimal_digit greeting_30 = greeting_30"
    by (simp add: greeting_30_def run_defs)
  have 7: "reject_short greeting_30 = greeting_30"
    by (simp add: greeting_30_def run_defs)
  from clean_content_steps [OF 0(2) 1 2 3 4 5 6 7] 0(1) show ?thesis by simp
qed

lemma clean_greeting_29: "clean_content decimal_digit (strip greeting_29) = []"
proof -
  have 0: "strip greeting_29 = greeting_29" "greeting_29 \<noteq> []"
    by (simp_all add: greeting_29_def greeting_30_def run_defs)
  have 1: "collapse_whitespace greeting_29 = greeting_29"
    by (simp add: greeting_29_def greeting_30_def run_defs)
  have 2: "strip_escapes greeting_29 = greeting_29"
    by (simp add: greeting_29_def greeting_30_def run_defs)
  have 3: "strip_punctuation greeting_29 = greeting_29"
    by (simp add: greeting_29_def greeting_30_def run_defs)
  have 4: "remove_labels decimal_digit greeting_29 = greeting_29"
    by (simp add: greeting_29_def greeting_30_def run_defs)
  have 5: "remove_nav_terms greeting_29 = greeting_29"
    by (simp add: greeting_29_def greeting_30_def run_defs)
  have 6: "remove_date_line decimal_digit greeting_29 = greeting_29"
    by (simp add: greeting_29_def greeting_30_def run_defs)
  have 7: "reject_short greeting_29 = []"
    by (simp add: greeting_29_def greeting_30_def run_defs)
  from clean_content_steps [OF 0(2) 1 2 3 4 5 6 7] 0(1) show ?thesis by simp
qed

text \<open>
  C4 as stated fails on the code: the scraper that has the minimum length and the check
  of the script takes the content of a \<open>post-content\<close> container through the same
  cleaning and the same validation. A Persian greeting of 29 characters found in such a
  container is rejected for its length, and a Latin sentence of 40 characters found in
  such a container is extracted and then rejected for its script.
\<close>

theorem container_content_checked_counterexample:
  "extract_post_data_v2 decimal_digit (container_elem greeting_29) = None \<and>
   extract_post_data_v2 decimal_digit (container_elem latin_40) = Some (make_post latin_40) \<and>
   \<not> is_valid_post decimal_digit (extract_post_data_v2 decimal_digit (container_elem latin_40))"
proof -
  have 1: "extract_post_data_v2 decimal_digit (container_elem greeting_29) = None"
    using extract_container [OF clean_greeting_29] by simp
  have "latin_40 \<noteq> []"
    by (simp add: latin_40_def ustr_def)
  then have 2: "extract_post_data_v2 decimal_digit (container_elem latin_40) = Some (make_post latin_40)"
    using extract_container [OF clean_latin_40] by simp
  have 3: "\<not> is_valid_post decimal_digit (Some (make_post latin_40))"
    by (simp add: is_valid_post_def make_post_def has_persian_def latin_40_def ustr_def)
  from 1 2 3 show ?thesis by simp
qed

text \<open>
  C4 (as amended): in \<open>ninisite_scraper_v2.py\<close> every extracted post has a content of
  at least 30 characters, whether the content came from a \<open>post-content\<close> container
  or from the text of the element, and every post that the validation accepts has at least
  30 characters and a character in the range 0600-06FF. In \<open>ninisite_scraper.py\<close>,
  which reads the content from the \<open>post-message\<close> container, neither check exists:
  every content that is not empty after stripping is kept as it is.
\<close>

theorem content_checks_by_scraper:
  "(extract_post_data_v2 dig elem = Some post \<longrightarrow> 30 \<le> length (post_content post)) \<and>
   (is_valid_post dig (Some post) \<longrightarrow>
      30 \<le> length (post_content post) \<and> (\<exists>c\<in>set (post_content post). 0x0600 \<le> c \<and> c \<le> 0x06FF)) \<and>
   (post_message article = Some (text, markup) \<and> strip text \<noteq> [] \<longrightarrow>
      (\<exists>p. extract_post_data article is_main = Some p \<and> p ''content'' = Some (PyStr (strip text))))"
proof (intro conjI impI)
  assume "extract_post_data_v2 dig elem = Some post"
  from extract_post_data_v2_content [OF this] clean_content_length
  show "30 \<le> length (post_content post)" by metis
next
  assume v: "is_valid_post dig (Some post)"
  then show "30 \<le> length (post_content post)"
    by (simp add: is_valid_post_def split: if_splits)
  from v show "\<exists>c\<in>set (post_content post). 0x0600 \<le> c \<and> c \<le> 0x06FF"
    by (simp add: is_valid_post_def has_persian_def list_ex_iff split: if_splits)
next
  assume "post_message article = Some (text, markup) \<and> strip text \<noteq> []"
  then show "\<exists>p. extract_post_data article is_main = Some p \<and> p ''content'' = Some (PyStr (strip text))"
    using extract_post_data_content by blast
qed

theorem content_checks_by_scraper_witness:
  "extract_post_data_v2 decimal_digit (container_elem greeting_30) = Some (make_post greeting_30) \<and>
   30 \<le> length (post_content (make_post greeting_30)) \<and>
   is_valid_post decimal_digit (Some (make_post greeting_30)) \<and>
   (\<exists>p. extract_post_data reply_article False = Some p \<and> p ''content'' = Some (PyStr (ustr ''hello'')))"
proof -
  have "greeting_30 \<noteq> []"
    by (simp add: greeting_30_def)
  then have e: "extract_post_data_v2 decimal_digit (container_elem greeting_30) = Some (make_post greeting_30)"
    using extract_container [OF clean_greeting_30] by simp
  have v: "is_valid_post decimal_digit (Some (make_post greeting_30))"
    by (simp add: is_valid_post_def make_post_def greeting_30_def run_defs)
  have m: "post_message reply_article =
             Some (ustr '' hello '', ustr ''<div class=\"post-message\"> hello </div>'') \<and>
           strip (ustr '' hello '') \<noteq> []"
    by (simp add: reply_article_def empty_article_def run_defs)
  have s: "strip (ustr '' hello '') = ustr ''hello''"
    by (simp add: run_defs)
  from content_checks_by_scraper [of decimal_digit "container_elem greeting_30" "make_post greeting_30"
      reply_article "ustr '' hello ''" "ustr ''<div class=\"post-message\"> hello </div>''" False] e v m s
  show ?thesis by simp
qed

section \<open>Cleaning twice\<close>

subsection \<open>Substitution in general\<close>

lemma sub_matches_id:
  "(\<And>t. suffix t s \<Longrightarrow> m t = None) \<Longrightarrow> sub_matches m r s = s"
proof (induction s)
  case Nil
  show ?case by simp
next
  case (Cons c cs)
  have "m (c # cs) = None" using Cons.prems by simp
  moreover have "sub_matches m r cs = cs"
    using Cons.prems by (intro Cons.IH) (simp add: suffix_ConsI)
  ultimately show ?case by simp
qed

lemma sub_matches_set:
  assumes "\<And>t r'. m t = Some r' \<Longrightarrow> suffix r' t"
  shows "set (sub_matches m r s) \<subseteq> set s \<union> set r"
proof (induction "length s" arbitrary: s rule: less_induct)
  case less
  show ?case
  proof (cases s)
    case Nil
    then show ?thesis by simp
  next
    case (Cons c cs)
    show ?thesis
    proof (cases "m (c # cs)")
      case None
      with Cons less [of cs] show ?thesis by auto
    next
      case (Some rest)
      from assms [OF Some] have "set rest \<subseteq> set (c # cs)"
        by (rule set_mono_suffix)
      with Cons Some less [of cs] less [of rest] show ?thesis by auto
    qed
  qed
qed

subsection \<open>White space\<close>

lemma dropWhile_shorter: "length (dropWhile P cs) < Suc (length cs)"
  by (rule le_imp_less_Suc [OF length_dropWhile_le])

lemma collapse_whitespace_Nil: "collapse_whitespace [] = []"
  by (simp add: collapse_whitespace_def)

lemma collapse_whitespace_Cons:
  "collapse_whitespace (c # cs) =
     (if is_space c then 32 # collapse_whitespace (dropWhile is_space cs)
      else c # collapse_whitespace cs)"
  by (simp add: collapse_whitespace_def match_spaces_def dropWhile_shorter)

lemma collapse_whitespace_hd:
  "cs = [] \<or> \<not> is_space (hd cs) \<Longrightarrow>
     collapse_whitespace cs = [] \<or> \<not> is_space (hd (collapse_whitespace cs))"
  by (cases cs) (auto simp: collapse_whitespace_Nil collapse_whitespace_Cons)

lemma collapse_whitespace_single_spaced: "single_spaced (collapse_whitespace s)"
proof (induction "length s" arbitrary: s rule: less_induct)
  case less
  show ?case
  proof (cases s)
    case Nil
    then show ?thesis by (simp add: collapse_whitespace_Nil)
  next
    case (Cons c cs)
    show ?thesis
    proof (cases "is_space c")
      case False
      with Cons less [of cs] show ?thesis
        by (simp add: collapse_whitespace_Cons)
    next
      case True
      let ?t = "dropWhile is_space cs"
      have "length ?t < length s"
        using Cons by (simp add: dropWhile_shorter)
      then have ss: "single_spaced (collapse_whitespace ?t)" by (rule less)
      have "?t = [] \<or> \<not> is_space (hd ?t)"
        using hd_dropWhile [of is_space cs] by blast
      then have h: "collapse_whitespace ?t = [] \<or> \<not> is_space (hd (collapse_whitespace ?t))"
        by (rule collapse_whitespace_hd)
      have "single_spaced (32 # collapse_whitespace ?t)"
      proof (cases "collapse_whitespace ?t")
        case Nil
        then show ?thesis by simp
      next
        case (Cons d ds)
        with h ss show ?thesis by simp
      qed
      with True Cons show ?thesis
        by (simp add: collapse_whitespace_Cons)
    qed
  qed
qed

lemma single_spaced_fixed: "single_spaced s \<Longrightarrow> collapse_whitespace s = s"
proof (induction s)
  case Nil
  show ?case by (simp add: collapse_whitespace_Nil)
next
  case (Cons c cs)
  then show ?case
    by (cases cs) (auto simp: collapse_whitespace_Cons collapse_whitespace_Nil)
qed

lemma single_spaced_spaces: "single_spaced s \<Longrightarrow> c \<in> set s \<Longrightarrow> is_space c \<Longrightarrow> c = 32"
  by (induction s) auto

lemma contains_Cons: "contains old cs \<Longrightarrow> contains old (c # cs)"
  by simp

lemma single_spacedI:
  "\<forall>c\<in>set s. is_space c \<longrightarrow> c = 32 \<Longrightarrow> \<not> contains [32, 32] s \<Longrightarrow> single_spaced s"
proof (induction s)
  case Nil
  show ?case by simp
next
  case (Cons c cs)
  have 1: "\<forall>c\<in>set cs. is_space c \<longrightarrow> c = 32" using Cons.prems(1) by simp
  have 2: "\<not> contains [32, 32] cs" using Cons.prems(2) contains_Cons by blast
  have ss: "single_spaced cs" using 1 2 by (rule Cons.IH)
  show ?case
  proof (cases cs)
    case Nil
    with Cons.prems(1) show ?thesis by simp
  next
    case (Cons d ds)
    have "\<not> (is_space c \<and> is_space d)"
    proof
      assume "is_space c \<and> is_space d"
      with Cons.prems(1) Cons have "c = 32" "d = 32" by simp_all
      with Cons have "prefix [32, 32] (c # cs)" by simp
      then have "contains [32, 32] (c # cs)" by simp
      with Cons.prems(2) show False by blast
    qed
    with ss Cons Cons.prems(1) show ?thesis by simp
  qed
qed

subsection \<open>Backslashes\<close>

lemma filter_dropWhile: "(\<And>x. Q x \<Longrightarrow> \<not> P x) \<Longrightarrow> filter P (dropWhile Q xs) = filter P xs"
  by (induction xs) auto

lemma strip_escapes_filter: "strip_escapes s = filter (\<lambda>c. c \<noteq> 92) s"
proof (induction "length s" arbitrary: s rule: less_induct)
  case less
  show ?case
  proof (cases s)
    case Nil
    then show ?thesis by (simp add: strip_escapes_def)
  next
    case (Cons c cs)
    show ?thesis
    proof (cases "c = 92")
      case False
      with Cons less [of cs] show ?thesis
        by (simp add: strip_escapes_def match_backslashes_def)
    next
      case True
      let ?t = "dropWhile (\<lambda>x. x = 92) cs"
      have l: "length ?t < length s"
        using Cons by (simp add: dropWhile_shorter)
      then have "strip_escapes ?t = filter (\<lambda>c. c \<noteq> 92) ?t" by (rule less)
      also have "\<dots> = filter (\<lambda>c. c \<noteq> 92) cs"
        by (rule filter_dropWhile) simp
      finally show ?thesis
        using True Cons l by (simp add: strip_escapes_def match_backslashes_def)
    qed
  qed
qed

subsection \<open>Punctuation\<close>

lemma punct_not_space: "is_punct c \<Longrightarrow> \<not> is_space c"
  by (auto simp: is_punct_def is_space_def)

lemma match_punct_suffix: "match_punct t = Some r \<Longrightarrow> suffix r t \<and> length r < length t"
proof -
  assume a: "match_punct t = Some r"
  then obtain p r' where d: "dropWhile is_space t = p # r'" and
    r: "r = dropWhile is_space (dropWhile is_punct r')"
    by (auto simp: match_punct_def split: list.splits if_splits)
  have 1: "suffix (p # r') t"
    using suffix_dropWhile [of is_space t] d by simp
  have 2: "suffix r r'"
    unfolding r by (meson suffix_dropWhile suffix_order.trans)
  from 1 2 have "suffix r t"
    by (meson suffix_ConsD suffix_order.trans)
  moreover have "length r \<le> length r'"
    using 2 by (rule suffix_length_le)
  moreover have "length (p # r') \<le> length t"
    using 1 by (rule suffix_length_le)
  ultimately show ?thesis by simp
qed

lemma match_punct_None: "\<forall>c\<in>set t. \<not> is_punct c \<Longrightarrow> match_punct t = None"
proof -
  assume a: "\<forall>c\<in>set t. \<not> is_punct c"
  show ?thesis
  proof (cases "dropWhile is_space t")
    case Nil
    show ?thesis unfolding match_punct_def Nil by simp
  next
    case (Cons p r)
    then have "p \<in> set t"
      by (metis list.set_intros(1) set_dropWhileD)
    with a Cons show ?thesis by (simp add: match_punct_def)
  qed
qed

lemma strip_punctuation_Cons:
  "strip_punctuation (c # cs) =
     (case match_punct (c # cs) of
        Some rest \<Rightarrow> 32 # strip_punctuation rest
      | None \<Rightarrow> c # strip_punctuation cs)"
  using match_punct_suffix [of "c # cs"]
  by (auto simp: strip_punctuation_def split: option.splits)

lemma strip_punctuation_no_punct: "c \<in> set (strip_punctuation s) \<Longrightarrow> \<not> is_punct c"
proof (induction "length s" arbitrary: s rule: less_induct)
  case less
  show ?case
  proof (cases s)
    case Nil
    with less.prems show ?thesis by (simp add: strip_punctuation_def)
  next
    case (Cons d ds)
    show ?thesis
    proof (cases "match_punct (d # ds)")
      case None
      have "\<not> is_punct d"
      proof
        assume "is_punct d"
        then have "match_punct (d # ds) \<noteq> None"
          by (simp add: match_punct_def punct_not_space)
        with None show False by simp
      qed
      with None Cons less.prems less.hyps [of ds] show ?thesis
        by (auto simp: strip_punctuation_Cons)
    next
      case (Some rest)
      from match_punct_suffix [OF Some] Cons have "length rest < length s" by simp
      with Some Cons less.prems less.hyps [of rest] show ?thesis
        by (auto simp: strip_punctuation_Cons is_punct_def)
    qed
  qed
qed

lemma strip_punctuation_fixed: "\<forall>c\<in>set s. \<not> is_punct c \<Longrightarrow> strip_punctuation s = s"
  unfolding strip_punctuation_def
proof (rule sub_matches_id)
  fix t
  assume "\<forall>c\<in>set s. \<not> is_punct c" "suffix t s"
  then have "\<forall>c\<in>set t. \<not> is_punct c"
    by (meson set_mono_suffix subsetD)
  then show "match_punct t = None" by (rule match_punct_None)
qed

lemma strip_punctuation_set: "set (strip_punctuation s) \<subseteq> set s \<union> {32}"
  using sub_matches_set [of match_punct "[32]" s] match_punct_suffix
  by (simp add: strip_punctuation_def)

subsection \<open>Labels\<close>

lemma after_prefix_suffix: "after_prefix p t = Some r \<Longrightarrow> suffix r t \<and> prefix p t"
  by (auto simp: after_prefix_def suffix_drop split: if_splits)

lemma match_label_value_suffix:
  assumes "match_label_value dig t = Some r"
  shows "suffix r t \<and> 58 \<in> set t \<and> length r < length t"
proof -
  from assms obtain u d r' where t: "t = 58 # u" and d: "dropWhile is_space u = d # r'"
    and r: "r = dropWhile (\<lambda>x. dig x \<or> x = 47) r'"
    by (auto simp: match_label_value_def split: list.splits if_splits)
  have 1: "suffix (d # r') u"
    using suffix_dropWhile [of is_space u] d by simp
  have 2: "suffix r r'"
    unfolding r by (rule suffix_dropWhile)
  from 1 2 have 3: "suffix r u"
    by (meson suffix_ConsD suffix_order.trans)
  have "length r \<le> length u" using 3 by (rule suffix_length_le)
  with 3 t show ?thesis by (simp add: suffix_ConsI)
qed

lemma match_label_part:
  assumes "Option.bind (after_prefix l t) (match_label_value dig) = Some r"
  shows "suffix r t \<and> 58 \<in> set t \<and> length r < length t"
proof -
  from assms obtain u where u: "after_prefix l t = Some u" and v: "match_label_value dig u = Some r"
    by (auto simp: bind_eq_Some_conv)
  from after_prefix_suffix [OF u] have s: "suffix u t" by simp
  from match_label_value_suffix [OF v] have "suffix r u" "58 \<in> set u" "length r < length u"
    by simp_all
  moreover have "set u \<subseteq> set t" using s by (rule set_mono_suffix)
  moreover have "length u \<le> length t" using s by (rule suffix_length_le)
  ultimately show ?thesis using s by (auto intro: suffix_order.trans)
qed

lemma match_label_suffix:
  "match_label dig t = Some r \<Longrightarrow> suffix r t \<and> 58 \<in> set t \<and> length r < length t"
  unfolding match_label_def
  by (auto split: option.splits dest: match_label_part)

lemma remove_labels_set: "set (remove_labels dig s) \<subseteq> set s"
  using sub_matches_set [of "match_label dig" "[]" s] match_label_suffix
  by (simp add: remove_labels_def)

lemma remove_labels_fixed: "58 \<notin> set s \<Longrightarrow> remove_labels dig s = s"
  unfolding remove_labels_def
proof (rule sub_matches_id)
  fix t
  assume a: "58 \<notin> set s" "suffix t s"
  then have "58 \<notin> set t"
    by (meson set_mono_suffix subsetD)
  with match_label_suffix [of dig t] show "match_label dig t = None"
    by (cases "match_label dig t") auto
qed

subsection \<open>Navigation terms\<close>

lemma remove_term_set: "set (remove_term t s) \<subseteq> set s"
  using sub_matches_set [of "after_prefix t" "[]" s] after_prefix_suffix
  by (simp add: remove_term_def)

lemma contains_suffix: "suffix u s \<Longrightarrow> prefix t u \<Longrightarrow> contains t s"
proof (induction s)
  case Nil
  then show ?case by simp
next
  case (Cons c cs)
  from Cons.prems(1) have "u = c # cs \<or> suffix u cs"
    by (simp add: suffix_Cons)
  with Cons show ?case by auto
qed

lemma remove_term_fixed: "\<not> contains t s \<Longrightarrow> remove_term t s = s"
  unfolding remove_term_def
proof (rule sub_matches_id)
  fix u
  assume a: "\<not> contains t s" "suffix u s"
  then have "\<not> prefix t u" using contains_suffix by blast
  then show "after_prefix t u = None" by (simp add: after_prefix_def)
qed

lemma remove_terms_set: "set (foldl (\<lambda>content term. remove_term term content) s ts) \<subseteq> set s"
proof (induction ts arbitrary: s)
  case Nil
  show ?case by simp
next
  case (Cons t ts)
  have "set (foldl (\<lambda>content term. remove_term term content) (remove_term t s) ts) \<subseteq> set (remove_term t s)"
    by (rule Cons.IH)
  with remove_term_set [of t s] show ?case by auto
qed

lemma remove_terms_fixed:
  "\<forall>t\<in>set ts. \<not> contains t s \<Longrightarrow> foldl (\<lambda>content term. remove_term term content) s ts = s"
  by (induction ts) (simp_all add: remove_term_fixed)

lemma remove_nav_terms_set: "set (remove_nav_terms s) \<subseteq> set s"
  unfolding remove_nav_terms_def by (rule remove_terms_set)

lemma remove_nav_terms_fixed: "\<forall>t\<in>set nav_terms. \<not> contains t s \<Longrightarrow> remove_nav_terms s = s"
  unfolding remove_nav_terms_def by (rule remove_terms_fixed)

subsection \<open>Dates and lengths\<close>

lemma match_date_drop: "match_date dig s = Some r \<Longrightarrow> r = drop 10 s \<and> 10 \<le> length s"
  by (auto simp: match_date_def digits_n_def after_prefix_def bind_eq_Some_conv split: if_splits)

lemma remove_date_line_set: "set (remove_date_line dig s) \<subseteq> set s"
  by (simp add: remove_date_line_def)

lemma remove_date_line_idem:
  "remove_date_line dig (remove_date_line dig s) = remove_date_line dig s"
  by (simp add: remove_date_line_def is_date_line_def match_date_def digits_n_def)

lemma strip_set: "set (strip s) \<subseteq> set s"
proof
  fix x
  assume "x \<in> set (strip s)"
  then have "x \<in> set (dropWhile is_space (rev (dropWhile is_space s)))"
    by (simp add: strip_def)
  then have "x \<in> set (rev (dropWhile is_space s))" by (rule set_dropWhileD)
  then have "x \<in> set (dropWhile is_space s)" by simp
  then show "x \<in> set s" by (rule set_dropWhileD)
qed

lemma hd_rev_suffix:
  assumes "suffix v (rev u)" and "v \<noteq> []"
  shows "hd (rev v) = hd u"
proof -
  from assms(1) obtain w where "rev u = w @ v" by (auto simp: suffix_def)
  then have "u = rev v @ rev w" by (metis rev_append rev_rev_ident)
  moreover have "rev v \<noteq> []" using assms(2) by simp
  ultimately show ?thesis by (metis hd_append2)
qed

lemma strip_ends:
  assumes "strip s \<noteq> []"
  shows "\<not> is_space (hd (strip s)) \<and> \<not> is_space (last (strip s))"
proof -
  define u where "u = dropWhile is_space s"
  define v where "v = dropWhile is_space (rev u)"
  have sv: "strip s = rev v" by (simp add: strip_def u_def v_def)
  with assms have v: "v \<noteq> []" by simp
  have u: "u \<noteq> []"
  proof
    assume "u = []"
    then have "v = []" by (simp add: v_def)
    with v show False by blast
  qed
  have l: "\<not> is_space (hd v)" using v unfolding v_def by (rule hd_dropWhile)
  have "suffix v (rev u)" unfolding v_def by (rule suffix_dropWhile)
  then have "hd (rev v) = hd u" using v by (rule hd_rev_suffix)
  moreover have "\<not> is_space (hd u)" using u unfolding u_def by (rule hd_dropWhile)
  ultimately have h: "\<not> is_space (hd (rev v))" by simp
  from l v have "\<not> is_space (last (rev v))" by (simp add: last_rev)
  with h sv show ?thesis by simp
qed

lemma strip_fixed:
  assumes "s = [] \<or> (\<not> is_space (hd s) \<and> \<not> is_space (last s))"
  shows "strip s = s"
proof (cases "s = []")
  case True
  then show ?thesis by (simp add: strip_def)
next
  case False
  with assms have h: "\<not> is_space (hd s)" and l: "\<not> is_space (last s)" by simp_all
  from h False have 1: "dropWhile is_space s = s"
    by (simp add: dropWhile_eq_self_iff)
  from l False have "\<not> is_space (hd (rev s))" by (simp add: hd_rev)
  then have 2: "dropWhile is_space (rev s) = rev s"
    by (simp add: dropWhile_eq_self_iff)
  from 1 2 show ?thesis by (simp add: strip_def)
qed

lemma strip_strip: "strip (strip s) = strip s"
  using strip_ends [of s] by (intro strip_fixed) blast

lemma reject_short_idem: "reject_short (reject_short s) = reject_short s"
  by (simp add: reject_short_def Let_def strip_strip) (simp add: strip_def)

lemma stripped_not_date_line:
  assumes "strip z = y" and "30 \<le> length y"
  shows "\<not> is_date_line dig y"
proof
  assume d: "is_date_line dig y"
  from assms have ne: "strip z \<noteq> []" by auto
  from strip_ends [OF ne] assms have h: "\<not> is_space (hd y)" and l: "\<not> is_space (last y)"
    by simp_all
  from assms(2) have yne: "y \<noteq> []" by auto
  with h have "dropWhile is_space y = y" by (simp add: dropWhile_eq_self_iff)
  with d obtain rest where m: "match_date dig y = Some rest" and sp: "list_all is_space rest"
    by (auto simp: is_date_line_def split: option.splits)
  from match_date_drop [OF m] have r: "rest = drop 10 y" by simp
  with assms(2) have "rest \<noteq> []" by simp
  then have "last rest \<in> set rest" by simp
  with sp have "is_space (last rest)" by (simp add: list_all_iff)
  moreover from r assms(2) have "last rest = last y" by simp
  ultimately show False using l by simp
qed

subsection \<open>The whole cleaning\<close>

lemma clean_content_output:
  assumes "clean_content dig x = y" and "y \<noteq> []"
  shows "(\<exists>z. strip z = y) \<and> 30 \<le> length y \<and> (\<forall>c\<in>set y. is_space c \<longrightarrow> c = 32) \<and>
         92 \<notin> set y \<and> (\<forall>c\<in>set y. \<not> is_punct c)"
proof -
  define z1 where "z1 = collapse_whitespace x"
  define z2 where "z2 = strip_escapes z1"
  define z3 where "z3 = strip_punctuation z2"
  define z4 where "z4 = remove_labels dig z3"
  define z5 where "z5 = remove_nav_terms z4"
  define z6 where "z6 = remove_date_line dig z5"
  have y: "y = reject_short z6"
    using assms by (simp add: clean_content_def z1_def z2_def z3_def z4_def z5_def z6_def split: if_splits)
  with assms(2) have ys: "strip z6 = y" and len: "30 \<le> length y"
    by (auto simp: reject_short_def Let_def split: if_splits)
  have "set y \<subseteq> set z6" using strip_set [of z6] ys by simp
  also have "\<dots> \<subseteq> set z5" unfolding z6_def by (rule remove_date_line_set)
  also have "\<dots> \<subseteq> set z4" unfolding z5_def by (rule remove_nav_terms_set)
  also have "\<dots> \<subseteq> set z3" unfolding z4_def by (rule remove_labels_set)
  finally have y3: "set y \<subseteq> set z3" .
  have p: "\<forall>c\<in>set y. \<not> is_punct c"
    using y3 strip_punctuation_no_punct [of _ z2] unfolding z3_def by blast
  have z32: "set z3 \<subseteq> set z2 \<union> {32}" unfolding z3_def by (rule strip_punctuation_set)
  have z2f: "z2 = filter (\<lambda>c. c \<noteq> 92) z1" unfolding z2_def by (rule strip_escapes_filter)
  have b: "92 \<notin> set y"
  proof
    assume "92 \<in> set y"
    with y3 z32 have "(92::nat) \<in> set z2" by auto
    with z2f show False by simp
  qed
  have s: "\<forall>c\<in>set y. is_space c \<longrightarrow> c = 32"
  proof (intro ballI impI)
    fix c
    assume c: "c \<in> set y" "is_space c"
    show "c = 32"
    proof (cases "c = 32")
      case True
      then show ?thesis .
    next
      case False
      with c y3 z32 have "c \<in> set z2" by auto
      with z2f have "c \<in> set z1" by simp
      with c(2) show ?thesis
        using single_spaced_spaces [OF collapse_whitespace_single_spaced, of c x]
        by (simp add: z1_def)
    qed
  qed
  from ys len s b p show ?thesis by blast
qed

lemma clean_content_fixed:
  assumes "strip z = y" and "30 \<le> length y" and "\<forall>c\<in>set y. is_space c \<longrightarrow> c = 32"
    and "92 \<notin> set y" and "\<forall>c\<in>set y. \<not> is_punct c"
    and "\<not> contains [32, 32] y" and "\<forall>term\<in>set nav_terms. \<not> contains term y"
  shows "clean_content dig y = y"
proof -
  have 0: "y \<noteq> []" using assms(2) by auto
  have 1: "collapse_whitespace y = y"
    using assms(3,6) by (intro single_spaced_fixed single_spacedI)
  have 2: "strip_escapes y = y"
    using assms(4) by (simp add: strip_escapes_filter filter_id_conv) metis
  have 3: "strip_punctuation y = y"
    using assms(5) by (rule strip_punctuation_fixed)
  have "is_punct 58" by (simp add: is_punct_def)
  with assms(5) have "58 \<notin> set y" by blast
  then have 4: "remove_labels dig y = y" by (rule remove_labels_fixed)
  have 5: "remove_nav_terms y = y"
    using assms(7) by (rule remove_nav_terms_fixed)
  have 6: "remove_date_line dig y = y"
    using stripped_not_date_line [OF assms(1,2), of dig] by (simp add: remove_date_line_def)
  have "strip y = y" using strip_strip [of z] assms(1) by simp
  with assms(2) have 7: "reject_short y = y"
    by (simp add: reject_short_def Let_def)
  from 0 1 2 3 4 5 6 7 show ?thesis by (rule clean_content_steps)
qed

lemma clean_content_Nil: "clean_content dig [] = []"
  by (simp add: clean_content_def)

text \<open>
  C3 (as amended): collapsing white space, stripping backslashes, stripping runs of
  separators, removing a content that is only a date and rejecting short content are
  each idempotent, and cleaning twice gives the same as cleaning once for every string
  whose cleaned form has no two spaces in a row and contains none of the navigation
  phrases.
\<close>

theorem clean_content_idempotent_when:
  "collapse_whitespace (collapse_whitespace s) = collapse_whitespace s \<and>
   strip_escapes (strip_escapes s) = strip_escapes s \<and>
   strip_punctuation (strip_punctuation s) = strip_punctuation s \<and>
   remove_date_line dig (remove_date_line dig s) = remove_date_line dig s \<and>
   reject_short (reject_short s) = reject_short s \<and>
   (\<not> contains [32, 32] (clean_content dig s) \<and>
    (\<forall>term\<in>set nav_terms. \<not> contains term (clean_content dig s))
      \<longrightarrow> clean_content dig (clean_content dig s) = clean_content dig s)"
proof -
  have 1: "collapse_whitespace (collapse_whitespace s) = collapse_whitespace s"
    by (rule single_spaced_fixed [OF collapse_whitespace_single_spaced])
  have 2: "strip_escapes (strip_escapes s) = strip_escapes s"
    by (simp add: strip_escapes_filter)
  have 3: "strip_punctuation (strip_punctuation s) = strip_punctuation s"
    using strip_punctuation_no_punct [of _ s] by (intro strip_punctuation_fixed) blast
  have 4: "remove_date_line dig (remove_date_line dig s) = remove_date_line dig s"
    by (rule remove_date_line_idem)
  have 5: "reject_short (reject_short s) = reject_short s"
    by (rule reject_short_idem)
  have 6: "clean_content dig (clean_content dig s) = clean_content dig s"
    if a: "\<not> contains [32, 32] (clean_content dig s)"
      "\<forall>term\<in>set nav_terms. \<not> contains term (clean_content dig s)"
  proof (cases "clean_content dig s = []")
    case True
    then show ?thesis by (simp add: clean_content_Nil)
  next
    case False
    from clean_content_output [OF refl False] obtain z where
      "strip z = clean_content dig s" "30 \<le> length (clean_content dig s)"
      "\<forall>c\<in>set (clean_content dig s). is_space c \<longrightarrow> c = 32"
      "92 \<notin> set (clean_content dig s)" "\<forall>c\<in>set (clean_content dig s). \<not> is_punct c"
      by blast
    then show ?thesis using a by (rule clean_content_fixed)
  qed
  from 1 2 3 4 5 6 show ?thesis by blast
qed

lemma clean_escaped_input: "clean_content decimal_digit escaped_input = escaped_once"
proof -
  have 0: "escaped_input \<noteq> []"
    by (simp add: escaped_input_def)
  have 1: "collapse_whitespace escaped_input = escaped_input"
    by (simp add: escaped_input_def run_defs)
  have 2: "strip_escapes escaped_input = escaped_once"
    by (simp add: escaped_input_def escaped_once_def run_defs)
  have 3: "strip_punctuation escaped_once = escaped_once"
    by (simp add: escaped_once_def run_defs)
  have 4: "remove_labels decimal_digit escaped_once = escaped_once"
    by (simp add: escaped_once_def run_defs)
  have 5: "remove_nav_terms escaped_once = escaped_once"
    by (simp add: escaped_once_def run_defs)
  have 6: "remove_date_line decimal_digit escaped_once = escaped_once"
    by (simp add: escaped_once_def run_defs)
  have 7: "reject_short escaped_once = escaped_once"
    by (simp add: escaped_once_def run_defs)
  from 0 1 2 3 4 5 6 7 show ?thesis by (rule clean_content_steps)
qed

lemma clean_escaped_once: "clean_content decimal_digit escaped_once = escaped_twice"
proof -
  have 0: "escaped_once \<noteq> []"
    by (simp add: escaped_once_def ustr_def)
  have 1: "collapse_whitespace escaped_once = escaped_twice"
    by (simp add: escaped_once_def escaped_twice_def run_defs)
  have 2: "strip_escapes escaped_twice = escaped_twice"
    by (simp add: escaped_twice_def run_defs)
  have 3: "strip_punctuation escaped_twice = escaped_twice"
    by (simp add: escaped_twice_def run_defs)
  have 4: "remove_labels decimal_digit escaped_twice = escaped_twice"
    by (simp add: escaped_twice_def run_defs)
  have 5: "remove_nav_terms escaped_twice = escaped_twice"
    by (simp add: escaped_twice_def run_defs)
  have 6: "remove_date_line decimal_digit escaped_twice = escaped_twice"
    by (simp add: escaped_twice_def run_defs)
  have 7: "reject_short escaped_twice = escaped_twice"
    by (simp add: escaped_twice_def run_defs)
  from 0 1 2 3 4 5 6 7 show ?thesis by (rule clean_content_steps)
qed

lemma clean_messy_greeting: "clean_content decimal_digit messy_greeting = greeting_30"
proof -
  have 0: "messy_greeting \<noteq> []"
    by (simp add: messy_greeting_def)
  have 1: "collapse_whitespace messy_greeting = collapsed_greeting"
    by (simp add: messy_greeting_def collapsed_greeting_def run_defs)
  have 2: "strip_escapes collapsed_greeting = collapsed_greeting"
    by (simp add: collapsed_greeting_def run_defs)
  have 3: "strip_punctuation collapsed_greeting = greeting_30"
    by (simp add: collapsed_greeting_def greeting_30_def run_defs)
  have 4: "remove_labels decimal_digit greeting_30 = greeting_30"
    by (simp add: greeting_30_def run_defs)
  have 5: "remove_nav_terms greeting_30 = greeting_30"
    by (simp add: greeting_30_def run_defs)
  have 6: "remove_date_line decimal_digit greeting_30 = greeting_30"
    by (simp add: greeting_30_def run_defs)
  have 7: "reject_short greeting_30 = greeting_30"
    by (simp add: greeting_30_def run_defs)
  from 0 1 2 3 4 5 6 7 show ?thesis by (rule clean_content_steps)
qed

text \<open>
  C3 as stated fails on the code. Removing the backslash of \<open>first \ second\<close> leaves
  two spaces, which only a second cleaning collapses; removing a navigation phrase, or a
  label with its value, can put together a new one, which only a second removal takes
  away.
\<close>

theorem clean_content_idempotent_counterexample:
  "clean_content decimal_digit (clean_content decimal_digit escaped_input) \<noteq>
     clean_content decimal_digit escaped_input \<and>
   remove_nav_terms (remove_nav_terms nested_term) \<noteq> remove_nav_terms nested_term \<and>
   remove_labels decimal_digit (remove_labels decimal_digit nested_label) \<noteq>
     remove_labels decimal_digit nested_label"
proof -
  have 1: "escaped_twice \<noteq> escaped_once"
    by (simp add: escaped_once_def escaped_twice_def ustr_def)
  have 2: "remove_nav_terms nested_term = term_majalle"
    by (simp add: nested_term_def run_defs)
  have 3: "remove_nav_terms term_majalle = []"
    by (simp add: run_defs)
  have 4: "term_majalle \<noteq> []"
    by (simp add: term_majalle_def)
  have 5: "remove_labels decimal_digit nested_label = label_ozviat @ ustr '':2''"
    by (simp add: nested_label_def run_defs)
  have 6: "remove_labels decimal_digit (label_ozviat @ ustr '':2'') = []"
    by (simp add: run_defs)
  have 7: "label_ozviat @ ustr '':2'' \<noteq> []"
    by (simp add: label_ozviat_def)
  from 1 2 3 4 5 6 7 show ?thesis
    by (simp add: clean_escaped_input clean_escaped_once)
qed

theorem clean_content_idempotent_when_witness:
  "clean_content decimal_digit messy_greeting = greeting_30 \<and>
   clean_content decimal_digit (clean_content decimal_digit messy_greeting) =
     clean_content decimal_digit messy_greeting"
proof -
  have 1: "\<not> contains [32, 32] greeting_30"
    by (simp add: greeting_30_def)
  have 2: "\<forall>term\<in>set nav_terms. \<not> contains term greeting_30"
    by (simp add: greeting_30_def run_defs)
  from clean_content_idempotent_when [of messy_greeting decimal_digit] 1 2
  show ?thesis by (simp add: clean_messy_greeting)
qed

end
